theory Spec2Isabelle
  imports Main "HOL-Library.Word" "HOL-Library.Monad_Syntax"
begin

unbundle bit_operations_syntax

section \<open>Migration of legacy JSON claims to the protobuf claim (package claim)\<close>

text \<open>
  The embedding follows the Go source function by function. Conventions:
  \<^item> a Go pointer is an \<open>option\<close>: \<open>None\<close> is \<open>nil\<close>. Every optional proto2 field of
    a generated message is a pointer (or a slice, \<open>nil\<close> when unset), hence an \<open>option\<close>;
  \<^item> the claim is mutated in place through the chain of generated getters
    (\<open>pbClaim.GetStream().GetMetadata().GetFee().Amount = ...\<close>); the model passes the
    claim explicitly and returns the updated one;
  \<^item> a write through a getter that returned \<open>nil\<close> is a run-time panic in Go; a
    computation that can panic returns an \<open>option\<close> whose \<open>None\<close> is the panic, and
    the statements of a function are sequenced in the option monad;
  \<^item> \<open>(*pb.Claim, error)\<close>, the result of a migrator, is a pair of two options: the
    claim pointer and the error (\<open>None\<close> is the \<open>nil\<close> error).
\<close>

type_synonym byte = "8 word"

text \<open>
  \<open>float32\<close> values are only copied by this code, never computed with: a value is its
  IEEE-754 bit pattern; the literal \<open>float32(0.0)\<close> is the all-zero pattern.
\<close>
type_synonym float32 = "32 word"

text \<open>The generated enums with a map from names are \<open>int32\<close> values.\<close>
type_synonym int32 = "32 word"

subsection \<open>The legacy records\<close>

text \<open>
  Modelled from the spec: the declarations of the legacy JSON types \<open>FeeInfo\<close>,
  \<open>Fee\<close>, \<open>Sources\<close>, \<open>V1Claim\<close>, \<open>V2Claim\<close> and \<open>V3Claim\<close> are not under src/.
  The records hold the fields the migrators read, with the types their uses fix
  (section 3 of the spec: author, description, language, license, title, optional
  thumbnail, optional license URL and NSFW flag from V2 on, content type, a source
  descriptor with the hex digest, an optional fee with the three optional branches).
\<close>

text \<open>Modelled from the spec: one branch of a fee descriptor, an amount and an address.\<close>

record FeeInfo =
  Amount :: float32
  Address :: string

text \<open>Modelled from the spec: the legacy fee descriptor, each branch optional.\<close>

record Fee =
  LBC :: "FeeInfo option"
  BTC :: "FeeInfo option"
  USD :: "FeeInfo option"

text \<open>Modelled from the spec: the source descriptor with the hex-encoded digest.\<close>

record Sources =
  LbrySDHash :: string

text \<open>Modelled from the spec: the legacy record of schema V1.\<close>

record V1Claim =
  Title_v1 :: string
  Description_v1 :: string
  Author_v1 :: string
  Language_v1 :: string
  License_v1 :: string
  Sources_v1 :: Sources
  ContentType_v1 :: string
  Thumbnail_v1 :: "string option"
  Fee_v1 :: "Fee option"

text \<open>Modelled from the spec: the legacy record of schema V2.\<close>

record V2Claim =
  Title_v2 :: string
  Description_v2 :: string
  Author_v2 :: string
  Language_v2 :: string
  License_v2 :: string
  Sources_v2 :: Sources
  ContentType_v2 :: string
  Thumbnail_v2 :: "string option"
  Fee_v2 :: "Fee option"
  LicenseURL_v2 :: "string option"
  NSFW_v2 :: bool

text \<open>Modelled from the spec: the legacy record of schema V3.\<close>

record V3Claim =
  Title_v3 :: string
  Description_v3 :: string
  Author_v3 :: string
  Language_v3 :: string
  License_v3 :: string
  Sources_v3 :: Sources
  ContentType_v3 :: string
  Thumbnail_v3 :: "string option"
  Fee_v3 :: "Fee option"
  LicenseURL_v3 :: "string option"
  NSFW_v3 :: bool

subsection \<open>The protobuf messages (package pb)\<close>

text \<open>
  The generated package \<open>github.com/lbryio/types/go\<close> is imported, not part of the
  repository. Each enum is a datatype of its zero member and the members the schema
  names; each message is a record of the fields the migration assigns.
\<close>

datatype Fee_Version = Fee_UNKNOWN_VERSION | Fee__0_0_1
datatype Fee_Currency = Fee_UNKNOWN_CURRENCY | Fee_LBC | Fee_BTC | Fee_USD
datatype Metadata_Version =
  Metadata_UNKNOWN_VERSION | Metadata__0_0_1 | Metadata__0_0_2 | Metadata__0_0_3 | Metadata__0_1_0
datatype Source_Version = Source_UNKNOWN_VERSION | Source__0_0_1
datatype Stream_Version = Stream_UNKNOWN_VERSION | Stream__0_0_1
datatype Claim_Version = Claim_UNKNOWN_VERSION | Claim__0_0_1
datatype Claim_ClaimType = Claim_UNKNOWN_CLAIM_TYPE | Claim_streamType | Claim_certificateType

text \<open>\<open>new(pb.Signature)\<close> is the only signature value the code ever builds.\<close>
datatype pb_Signature = new_Signature

record pb_Fee =
  Version_fee :: "Fee_Version option"
  Currency_fee :: "Fee_Currency option"
  Address_fee :: "byte list option"
  Amount_fee :: "float32 option"

record pb_Metadata =
  Version_md :: "Metadata_Version option"
  Language_md :: "int32 option"
  Title_md :: "string option"
  Description_md :: "string option"
  Author_md :: "string option"
  License_md :: "string option"
  Nsfw_md :: "bool option"
  Fee_md :: "pb_Fee option"
  Thumbnail_md :: "string option"
  LicenseUrl_md :: "string option"

record pb_Source =
  Version_src :: "Source_Version option"
  SourceType_src :: "int32 option"
  Source_src :: "byte list option"
  ContentType_src :: "string option"

record pb_Stream =
  Version_stream :: "Stream_Version option"
  Metadata_stream :: "pb_Metadata option"
  Source_stream :: "pb_Source option"

record pb_Claim =
  Version_claim :: "Claim_Version option"
  ClaimType_claim :: "Claim_ClaimType option"
  Stream_claim :: "pb_Stream option"
  PublisherSignature_claim :: "pb_Signature option"

text \<open>The zero values that \<open>new\<close> allocates.\<close>

definition new_Fee :: pb_Fee where
  "new_Fee = \<lparr>Version_fee = None, Currency_fee = None, Address_fee = None, Amount_fee = None\<rparr>"

definition new_Metadata :: pb_Metadata where
  "new_Metadata = \<lparr>Version_md = None, Language_md = None, Title_md = None,
     Description_md = None, Author_md = None, License_md = None, Nsfw_md = None,
     Fee_md = None, Thumbnail_md = None, LicenseUrl_md = None\<rparr>"

definition new_Source :: pb_Source where
  "new_Source = \<lparr>Version_src = None, SourceType_src = None, Source_src = None,
     ContentType_src = None\<rparr>"

definition new_Stream :: pb_Stream where
  "new_Stream = \<lparr>Version_stream = None, Metadata_stream = None, Source_stream = None\<rparr>"

definition new_Claim :: pb_Claim where
  "new_Claim = \<lparr>Version_claim = None, ClaimType_claim = None, Stream_claim = None,
     PublisherSignature_claim = None\<rparr>"

text \<open>The generated getters: each returns \<open>nil\<close> on a \<open>nil\<close> receiver.\<close>

definition GetStream :: "pb_Claim option \<Rightarrow> pb_Stream option" where
  "GetStream m = (case m of None \<Rightarrow> None | Some c \<Rightarrow> Stream_claim c)"

definition GetMetadata :: "pb_Stream option \<Rightarrow> pb_Metadata option" where
  "GetMetadata m = (case m of None \<Rightarrow> None | Some s \<Rightarrow> Metadata_stream s)"

definition GetSource :: "pb_Stream option \<Rightarrow> pb_Source option" where
  "GetSource m = (case m of None \<Rightarrow> None | Some s \<Rightarrow> Source_stream s)"

definition GetFee :: "pb_Metadata option \<Rightarrow> pb_Fee option" where
  "GetFee m = (case m of None \<Rightarrow> None | Some d \<Rightarrow> Fee_md d)"

text \<open>
  A field assignment through a chain of getters, on the claim \<open>c\<close> that \<open>pbClaim\<close>
  points to: \<open>f\<close> is the assignment to the message the chain ends in. The result is
  \<open>None\<close> (a nil-pointer panic) when the chain ends in \<open>nil\<close>.
\<close>

definition store_Stream :: "(pb_Stream \<Rightarrow> pb_Stream) \<Rightarrow> pb_Claim \<Rightarrow> pb_Claim option" where
  "store_Stream f c =
     (case GetStream (Some c) of
        None \<Rightarrow> None
      | Some s \<Rightarrow> Some (c\<lparr>Stream_claim := Some (f s)\<rparr>))"

definition store_Metadata :: "(pb_Metadata \<Rightarrow> pb_Metadata) \<Rightarrow> pb_Claim \<Rightarrow> pb_Claim option" where
  "store_Metadata f c =
     (case GetMetadata (GetStream (Some c)) of
        None \<Rightarrow> None
      | Some d \<Rightarrow> store_Stream (\<lambda>s. s\<lparr>Metadata_stream := Some (f d)\<rparr>) c)"

definition store_Source :: "(pb_Source \<Rightarrow> pb_Source) \<Rightarrow> pb_Claim \<Rightarrow> pb_Claim option" where
  "store_Source f c =
     (case GetSource (GetStream (Some c)) of
        None \<Rightarrow> None
      | Some r \<Rightarrow> store_Stream (\<lambda>s. s\<lparr>Source_stream := Some (f r)\<rparr>) c)"

definition store_Fee :: "(pb_Fee \<Rightarrow> pb_Fee) \<Rightarrow> pb_Claim \<Rightarrow> pb_Claim option" where
  "store_Fee f c =
     (case GetFee (GetMetadata (GetStream (Some c))) of
        None \<Rightarrow> None
      | Some e \<Rightarrow> store_Metadata (\<lambda>d. d\<lparr>Fee_md := Some (f e)\<rparr>) c)"

text \<open>
  The generated name tables \<open>pb.Metadata_Language_value\<close> and
  \<open>pb.Source_SourceTypes_value\<close> (\<open>map[string]int32\<close>) are not in the repository: they
  are parameters of the migrators. Indexing a Go map at a missing key gives the zero
  value.
\<close>

record pb_tables =
  Metadata_Language_value :: "string \<Rightarrow> int32 option"
  Source_SourceTypes_value :: "string \<Rightarrow> int32 option"

definition index_map :: "(string \<Rightarrow> int32 option) \<Rightarrow> string \<Rightarrow> int32" where
  "index_map m k = (case m k of None \<Rightarrow> 0 | Some v \<Rightarrow> v)"

subsection \<open>The decoders of the imported packages\<close>

text \<open>
  \<open>hex.DecodeString\<close> of Go's standard library (encoding/hex, no code of the
  repository), as its documentation has it: it
  expects hexadecimal characters only and an even length, and on malformed input
  returns the bytes decoded before the error together with the error. Pairs of
  characters are decoded from the left; an invalid character is reported before an odd
  length.
\<close>

datatype hex_error = ErrLength | InvalidByteError char

definition fromHexChar :: "char \<Rightarrow> byte option" where
  "fromHexChar c =
     (let n = (of_char c :: nat) in
      if 48 \<le> n \<and> n \<le> 57 then Some (of_nat (n - 48))
      else if 97 \<le> n \<and> n \<le> 102 then Some (of_nat (n - 97 + 10))
      else if 65 \<le> n \<and> n \<le> 70 then Some (of_nat (n - 65 + 10))
      else None)"

fun hex_Decode :: "string \<Rightarrow> byte list \<times> hex_error option" where
  "hex_Decode (p # q # rest) =
     (case fromHexChar p of
        None \<Rightarrow> ([], Some (InvalidByteError p))
      | Some a \<Rightarrow>
          (case fromHexChar q of
             None \<Rightarrow> ([], Some (InvalidByteError q))
           | Some b \<Rightarrow>
               (case hex_Decode rest of (bs, e) \<Rightarrow> ((push_bit 4 a OR b) # bs, e))))"
| "hex_Decode [p] =
     (case fromHexChar p of
        None \<Rightarrow> ([], Some (InvalidByteError p))
      | Some a \<Rightarrow> ([], Some ErrLength))"
| "hex_Decode [] = ([], None)"

definition hex_DecodeString :: "string \<Rightarrow> byte list \<times> hex_error option" where
  "hex_DecodeString s = hex_Decode s"

text \<open>
  Modelled from the spec: \<open>base58.Decode\<close> of the imported package
  \<open>github.com/btcsuite/btcutil/base58\<close> is not under src/; the definitions from here
  to \<open>base58_Decode\<close> are its parts. This one is the standard base58 alphabet of
  section 4.1 of the spec.
\<close>

definition alphabet :: string where
  "alphabet = ''123456789ABCDEFGHJKLMNPQRSTUVWXYZabcdefghijkmnopqrstuvwxyz''"

text \<open>
  Modelled from the spec: the position of a character in the alphabet, for the digit
  table of \<open>base58.Decode\<close>.
\<close>

fun index_of :: "char \<Rightarrow> string \<Rightarrow> nat option" where
  "index_of c [] = None"
| "index_of c (a # as) =
     (if c = a then Some 0 else (case index_of c as of None \<Rightarrow> None | Some i \<Rightarrow> Some (Suc i)))"

text \<open>
  Modelled from the spec: the digit table \<open>b58\<close> of \<open>base58.Decode\<close>: the digit of a
  character of the alphabet, 255 for a character outside it.
\<close>

definition b58 :: "char \<Rightarrow> nat" where
  "b58 c = (case index_of c alphabet of None \<Rightarrow> 255 | Some i \<Rightarrow> i)"

text \<open>
  Modelled from the spec: the digit loop of \<open>base58.Decode\<close>, over the characters from
  the last to the first: \<open>answer\<close> accumulates the number, \<open>j\<close> is the power of 58;
  a character outside the alphabet (malformed input) ends the decoding, here \<open>None\<close>.
\<close>

fun b58_digits :: "string \<Rightarrow> nat \<Rightarrow> nat \<Rightarrow> nat option" where
  "b58_digits [] answer j = Some answer"
| "b58_digits (c # cs) answer j =
     (let tmp = b58 c in
      if tmp = 255 then None else b58_digits cs (answer + j * tmp) (j * 58))"

text \<open>
  Modelled from the spec: the raw bytes of the decoded number (\<open>big.Int.Bytes\<close>):
  big-endian, none for 0.
\<close>

fun Bytes :: "nat \<Rightarrow> byte list" where
  "Bytes n = (if n = 0 then [] else Bytes (n div 256) @ [of_nat (n mod 256)])"

declare Bytes.simps [simp del]

text \<open>
  Modelled from the spec: \<open>base58.Decode\<close> (not under src/). Section 4.1 of the spec:
  it decodes a base58 string to raw bytes using the standard base58 alphabet and, on
  malformed input, returns a zero-length byte sequence rather than failing. The raw
  bytes are the package's: the big-endian bytes of the number the digits denote, after
  one zero byte for each leading character \<open>1\<close>.
\<close>

definition base58_Decode :: "string \<Rightarrow> byte list" where
  "base58_Decode b =
     (case b58_digits (rev b) 0 1 of
        None \<Rightarrow> []
      | Some answer \<Rightarrow>
          (let tmpval = Bytes answer;
               numZeros = length (takeWhile (\<lambda>c. c = CHR ''1'') b)
           in replicate numZeros 0 @ tmpval))"

subsection \<open>The migration (src/unnamed/part_000)\<close>

definition lbrySDHash :: string where
  "lbrySDHash = ''lbry_sd_hash''"

definition newClaim :: "pb_Claim option" where
  "newClaim = do {
     let pbClaim = new_Claim;
     let stream = new_Stream;
     let metadata = new_Metadata;
     let source = new_Source;
     let pubSig = new_Signature;
     let fee = new_Fee;
     let metadata = metadata\<lparr>Fee_md := Some fee\<rparr>;
     let stream = stream\<lparr>Metadata_stream := Some metadata\<rparr>;
     let stream = stream\<lparr>Source_stream := Some source\<rparr>;
     let pbClaim = pbClaim\<lparr>Stream_claim := Some stream\<rparr>;
     let pbClaim = pbClaim\<lparr>PublisherSignature_claim := Some pubSig\<rparr>;
     pbClaim \<leftarrow> store_Fee (\<lambda>e. e\<lparr>Version_fee := Some Fee__0_0_1\<rparr>) pbClaim;
     pbClaim \<leftarrow> store_Metadata (\<lambda>d. d\<lparr>Version_md := Some Metadata__0_1_0\<rparr>) pbClaim;
     pbClaim \<leftarrow> store_Source (\<lambda>r. r\<lparr>Version_src := Some Source__0_0_1\<rparr>) pbClaim;
     pbClaim \<leftarrow> store_Stream (\<lambda>s. s\<lparr>Version_stream := Some Stream__0_0_1\<rparr>) pbClaim;
     let pbClaim = pbClaim\<lparr>Version_claim := Some Claim__0_0_1\<rparr>;
     let pbClaim = pbClaim\<lparr>ClaimType_claim := Some Claim_streamType\<rparr>;
     Some pbClaim
   }"

text \<open>
  \<open>setMetaData\<close> takes the claim struct by value; the copy shares the stream pointer,
  so its writes through the getters are writes to the caller's claim.
\<close>

definition setMetaData :: "pb_Claim \<Rightarrow> string \<Rightarrow> string \<Rightarrow> int32 \<Rightarrow> string \<Rightarrow>
    string option \<Rightarrow> string \<Rightarrow> string option \<Rightarrow> bool \<Rightarrow> pb_Claim option" where
  "setMetaData claim author description language license licenseURL title thumbnail nsfw = do {
     claim \<leftarrow> store_Metadata (\<lambda>d. d\<lparr>Author_md := Some author\<rparr>) claim;
     claim \<leftarrow> store_Metadata (\<lambda>d. d\<lparr>Description_md := Some description\<rparr>) claim;
     claim \<leftarrow> store_Metadata (\<lambda>d. d\<lparr>Language_md := Some language\<rparr>) claim;
     claim \<leftarrow> store_Metadata (\<lambda>d. d\<lparr>License_md := Some license\<rparr>) claim;
     claim \<leftarrow> store_Metadata (\<lambda>d. d\<lparr>Title_md := Some title\<rparr>) claim;
     claim \<leftarrow> store_Metadata (\<lambda>d. d\<lparr>Thumbnail_md := thumbnail\<rparr>) claim;
     claim \<leftarrow> store_Metadata (\<lambda>d. d\<lparr>Nsfw_md := Some nsfw\<rparr>) claim;
     store_Metadata (\<lambda>d. d\<lparr>LicenseUrl_md := licenseURL\<rparr>) claim
   }"

definition setFee :: "Fee option \<Rightarrow> pb_Claim \<Rightarrow> pb_Claim option" where
  "setFee fee pbClaim =
     (case fee of
        None \<Rightarrow> Some pbClaim
      | Some fee \<Rightarrow>
          (case
             (case BTC fee of
                Some i \<Rightarrow> (Amount i, Fee_BTC, Address i)
              | None \<Rightarrow>
                  (case LBC fee of
                     Some i \<Rightarrow> (Amount i, Fee_LBC, Address i)
                   | None \<Rightarrow>
                       (case USD fee of
                          Some i \<Rightarrow> (Amount i, Fee_USD, Address i)
                        | None \<Rightarrow> (0, Fee_LBC, ''''))))
           of (amount, currency, address) \<Rightarrow> do {
             pbClaim \<leftarrow> store_Fee (\<lambda>e. e\<lparr>Amount_fee := Some amount\<rparr>) pbClaim;
             pbClaim \<leftarrow> store_Fee (\<lambda>e. e\<lparr>Currency_fee := Some currency\<rparr>) pbClaim;
             store_Fee (\<lambda>e. e\<lparr>Address_fee := Some (base58_Decode address)\<rparr>) pbClaim
           }))"

definition migrateV1Claim ::
    "pb_tables \<Rightarrow> V1Claim \<Rightarrow> (pb_Claim option \<times> hex_error option) option" where
  "migrateV1Claim pb vClaim = do {
     pbClaim \<leftarrow> newClaim;
     let pbClaim = pbClaim\<lparr>PublisherSignature_claim := None\<rparr>;
     pbClaim \<leftarrow> setFee (Fee_v1 vClaim) pbClaim;
     let language = index_map (Metadata_Language_value pb) (Language_v1 vClaim);
     pbClaim \<leftarrow> setMetaData pbClaim (Author_v1 vClaim) (Description_v1 vClaim) language
       (License_v1 vClaim) None (Title_v1 vClaim) (Thumbnail_v1 vClaim) False;
     pbClaim \<leftarrow> store_Source (\<lambda>r. r\<lparr>ContentType_src := Some (ContentType_v1 vClaim)\<rparr>) pbClaim;
     let sourceType = index_map (Source_SourceTypes_value pb) lbrySDHash;
     pbClaim \<leftarrow> store_Source (\<lambda>r. r\<lparr>SourceType_src := Some sourceType\<rparr>) pbClaim;
     (case hex_DecodeString (LbrySDHash (Sources_v1 vClaim)) of (src, err) \<Rightarrow> do {
        pbClaim \<leftarrow> store_Source (\<lambda>r. r\<lparr>Source_src := Some src\<rparr>) pbClaim;
        Some (Some pbClaim, err)
      })
   }"

definition migrateV2Claim ::
    "pb_tables \<Rightarrow> V2Claim \<Rightarrow> (pb_Claim option \<times> hex_error option) option" where
  "migrateV2Claim pb vClaim = do {
     pbClaim \<leftarrow> newClaim;
     let pbClaim = pbClaim\<lparr>PublisherSignature_claim := None\<rparr>;
     pbClaim \<leftarrow> setFee (Fee_v2 vClaim) pbClaim;
     let language = index_map (Metadata_Language_value pb) (Language_v2 vClaim);
     pbClaim \<leftarrow> setMetaData pbClaim (Author_v2 vClaim) (Description_v2 vClaim) language
       (License_v2 vClaim) (LicenseURL_v2 vClaim) (Title_v2 vClaim) (Thumbnail_v2 vClaim)
       (NSFW_v2 vClaim);
     pbClaim \<leftarrow> store_Source (\<lambda>r. r\<lparr>ContentType_src := Some (ContentType_v2 vClaim)\<rparr>) pbClaim;
     let sourceType = index_map (Source_SourceTypes_value pb) lbrySDHash;
     pbClaim \<leftarrow> store_Source (\<lambda>r. r\<lparr>SourceType_src := Some sourceType\<rparr>) pbClaim;
     (case hex_DecodeString (LbrySDHash (Sources_v2 vClaim)) of (src, err) \<Rightarrow> do {
        pbClaim \<leftarrow> store_Source (\<lambda>r. r\<lparr>Source_src := Some src\<rparr>) pbClaim;
        Some (Some pbClaim, err)
      })
   }"

definition migrateV3Claim ::
    "pb_tables \<Rightarrow> V3Claim \<Rightarrow> (pb_Claim option \<times> hex_error option) option" where
  "migrateV3Claim pb vClaim = do {
     pbClaim \<leftarrow> newClaim;
     let pbClaim = pbClaim\<lparr>PublisherSignature_claim := None\<rparr>;
     pbClaim \<leftarrow> setFee (Fee_v3 vClaim) pbClaim;
     let language = index_map (Metadata_Language_value pb) (Language_v3 vClaim);
     pbClaim \<leftarrow> setMetaData pbClaim (Author_v3 vClaim) (Description_v3 vClaim) language
       (License_v3 vClaim) (LicenseURL_v3 vClaim) (Title_v3 vClaim) (Thumbnail_v3 vClaim)
       (NSFW_v3 vClaim);
     pbClaim \<leftarrow> store_Source (\<lambda>r. r\<lparr>ContentType_src := Some (ContentType_v3 vClaim)\<rparr>) pbClaim;
     let sourceType = index_map (Source_SourceTypes_value pb) lbrySDHash;
     pbClaim \<leftarrow> store_Source (\<lambda>r. r\<lparr>SourceType_src := Some sourceType\<rparr>) pbClaim;
     (case hex_DecodeString (LbrySDHash (Sources_v3 vClaim)) of (src, err) \<Rightarrow> do {
        pbClaim \<leftarrow> store_Source (\<lambda>r. r\<lparr>Source_src := Some src\<rparr>) pbClaim;
        Some (Some pbClaim, err)
      })
   }"

subsection \<open>Reading a claim, and well-formed input text\<close>

text \<open>
  The getter chains of the source, from a claim: \<open>c.GetStream().GetMetadata()\<close>,
  \<open>c.GetStream().GetSource()\<close> and \<open>c.GetStream().GetMetadata().GetFee()\<close>.
\<close>

definition Metadata_of :: "pb_Claim \<Rightarrow> pb_Metadata option" where
  "Metadata_of c = GetMetadata (GetStream (Some c))"

definition Source_of :: "pb_Claim \<Rightarrow> pb_Source option" where
  "Source_of c = GetSource (GetStream (Some c))"

definition Fee_of :: "pb_Claim \<Rightarrow> pb_Fee option" where
  "Fee_of c = GetFee (GetMetadata (GetStream (Some c)))"

text \<open>
  A digest is valid hexadecimal when its length is even and every character is a
  hexadecimal digit; an address is well-formed base58 when every character is in the
  alphabet.
\<close>

definition hexdigit :: "char \<Rightarrow> bool" where
  "hexdigit c = (c \<in> set ''0123456789abcdefABCDEF'')"

definition valid_hex :: "string \<Rightarrow> bool" where
  "valid_hex s = (even (length s) \<and> list_all hexdigit s)"

definition valid_base58 :: "string \<Rightarrow> bool" where
  "valid_base58 s = list_all (\<lambda>c. c \<in> set alphabet) s"

subsection \<open>Concrete inputs\<close>

definition example_tables :: pb_tables where
  "example_tables =
     \<lparr>Metadata_Language_value = map_of [(''UNKNOWN_LANGUAGE'', 0), (''en'', 1)],
      Source_SourceTypes_value = map_of [(''UNKNOWN_SOURCE_TYPE'', 0), (''lbry_sd_hash'', 1)]\<rparr>"

definition example_v1 :: V1Claim where
  "example_v1 =
     \<lparr>Title_v1 = ''title'', Description_v1 = ''text'', Author_v1 = ''author'',
      Language_v1 = ''en'', License_v1 = ''CC0'',
      Sources_v1 = \<lparr>LbrySDHash = ''deadbeef''\<rparr>, ContentType_v1 = ''video/mp4'',
      Thumbnail_v1 = None, Fee_v1 = None\<rparr>"

definition example_v2 :: V2Claim where
  "example_v2 =
     \<lparr>Title_v2 = ''title'', Description_v2 = ''text'', Author_v2 = ''author'',
      Language_v2 = ''en'', License_v2 = ''CC0'',
      Sources_v2 = \<lparr>LbrySDHash = ''deadbeef''\<rparr>, ContentType_v2 = ''video/mp4'',
      Thumbnail_v2 = None, Fee_v2 = None, LicenseURL_v2 = Some ''http://x.io/l'',
      NSFW_v2 = True\<rparr>"

definition example_v3 :: V3Claim where
  "example_v3 =
     \<lparr>Title_v3 = ''title'', Description_v3 = ''text'', Author_v3 = ''author'',
      Language_v3 = ''en'', License_v3 = ''CC0'',
      Sources_v3 = \<lparr>LbrySDHash = ''deadbeef''\<rparr>, ContentType_v3 = ''video/mp4'',
      Thumbnail_v3 = None, Fee_v3 = None, LicenseURL_v3 = Some ''http://x.io/l'',
      NSFW_v3 = True\<rparr>"

text \<open>
  Fee branches: the amounts 1.0, 2.0 and 3.0 as bit patterns; \<open>2g\<close> and \<open>3h\<close> are
  base58 for one byte each, \<open>0OIl\<close> has no character of the alphabet.
\<close>

definition example_btc :: FeeInfo where
  "example_btc = \<lparr>Amount = 0x3F800000, Address = ''2g''\<rparr>"

definition example_lbc :: FeeInfo where
  "example_lbc = \<lparr>Amount = 0x40000000, Address = ''3h''\<rparr>"

definition example_usd :: FeeInfo where
  "example_usd = \<lparr>Amount = 0x40400000, Address = ''0OIl''\<rparr>"

section \<open>Properties\<close>

subsection \<open>Auxiliary facts\<close>

lemmas store_defs = store_Fee_def store_Metadata_def store_Source_def store_Stream_def
  GetStream_def GetMetadata_def GetSource_def GetFee_def

lemmas of_defs = Metadata_of_def Source_of_def Fee_of_def

lemma newClaim_skeleton:
  "newClaim = Some
     \<lparr>Version_claim = Some Claim__0_0_1, ClaimType_claim = Some Claim_streamType,
      Stream_claim = Some
        \<lparr>Version_stream = Some Stream__0_0_1,
         Metadata_stream = Some (new_Metadata\<lparr>Version_md := Some Metadata__0_1_0,
           Fee_md := Some (new_Fee\<lparr>Version_fee := Some Fee__0_0_1\<rparr>)\<rparr>),
         Source_stream = Some (new_Source\<lparr>Version_src := Some Source__0_0_1\<rparr>)\<rparr>,
      PublisherSignature_claim = Some new_Signature\<rparr>"
  by (simp add: newClaim_def store_defs new_Claim_def new_Stream_def)

lemmas mig_defs = newClaim_skeleton setFee_def setMetaData_def store_defs

lemma hexdigit_of_char:
  "hexdigit c \<longleftrightarrow>
     (48 \<le> (of_char c :: nat) \<and> (of_char c :: nat) \<le> 57) \<or>
     (97 \<le> (of_char c :: nat) \<and> (of_char c :: nat) \<le> 102) \<or>
     (65 \<le> (of_char c :: nat) \<and> (of_char c :: nat) \<le> 70)"
proof -
  have eq: "\<And>d. (c = d) = ((of_char c :: nat) = of_char d)"
    by simp
  show ?thesis
    unfolding hexdigit_def
    apply (simp only: set_simps insert_iff empty_iff eq)
    apply simp
    apply arith
    done
qed

lemma fromHexChar_None: "fromHexChar c = None \<longleftrightarrow> \<not> hexdigit c"
  by (auto simp add: fromHexChar_def hexdigit_of_char Let_def)

lemma hex_Decode_error: "snd (hex_Decode s) = None \<longleftrightarrow> valid_hex s"
proof (induction s rule: hex_Decode.induct)
  case (1 p q rest)
  show ?case
  proof (cases "fromHexChar p")
    case None
    then show ?thesis using fromHexChar_None[of p] by (simp add: valid_hex_def)
  next
    case pa: (Some a)
    show ?thesis
    proof (cases "fromHexChar q")
      case None
      then show ?thesis using pa fromHexChar_None[of q] by (simp add: valid_hex_def)
    next
      case qb: (Some b)
      have "hexdigit p" "hexdigit q"
        using pa qb fromHexChar_None[of p] fromHexChar_None[of q] by auto
      then show ?thesis
        using 1[OF pa qb] pa qb by (auto simp add: valid_hex_def split: prod.splits)
    qed
  qed
next
  case (2 p)
  then show ?case by (simp add: valid_hex_def split: option.splits)
next
  case 3
  then show ?case by (simp add: valid_hex_def)
qed

lemma hex_DecodeString_error: "snd (hex_DecodeString s) \<noteq> None \<longleftrightarrow> \<not> valid_hex s"
  by (simp add: hex_DecodeString_def hex_Decode_error)

lemma hex_deadbeef: "hex_DecodeString ''deadbeef'' = ([0xDE, 0xAD, 0xBE, 0xEF], None)"
  by (simp add: hex_DecodeString_def fromHexChar_def)

lemma hex_abzz: "hex_DecodeString ''abzz'' = ([0xAB], Some (InvalidByteError CHR ''z''))"
  by (simp add: hex_DecodeString_def fromHexChar_def)

lemma not_valid_hex_abzz: "\<not> valid_hex ''abzz''"
  by (simp add: valid_hex_def hexdigit_def)

lemma b58_digits_None: "\<exists>c\<in>set cs. b58 c = 255 \<Longrightarrow> b58_digits cs a j = None"
  by (induction cs arbitrary: a j) (auto simp: Let_def)

lemma index_of_None: "index_of c as = None \<longleftrightarrow> c \<notin> set as"
  by (induction as) (auto split: option.splits)

lemma index_of_less: "index_of c as = Some i \<Longrightarrow> i < length as"
  by (induction as arbitrary: i) (auto split: option.splits if_splits)

lemma b58_255: "b58 c = 255 \<longleftrightarrow> c \<notin> set alphabet"
  using index_of_less[of c alphabet]
  by (auto simp: b58_def index_of_None alphabet_def split: option.splits)

lemma base58_Decode_malformed: "\<not> valid_base58 a \<Longrightarrow> base58_Decode a = []"
  using b58_digits_None[of "rev a" 0 1]
  by (auto simp: base58_Decode_def b58_255 list_all_iff valid_base58_def)

lemma base58_Decode_empty: "base58_Decode '''' = []"
  by (simp add: base58_Decode_def Bytes.simps)

lemma base58_2g: "base58_Decode ''2g'' = [97]"
  by (simp add: base58_Decode_def Bytes.simps b58_def alphabet_def)

lemma base58_3h: "base58_Decode ''3h'' = [156]"
  by (simp add: base58_Decode_def Bytes.simps b58_def alphabet_def)

lemma not_valid_base58_0OIl: "\<not> valid_base58 ''0OIl''"
  by (simp add: valid_base58_def alphabet_def)

text \<open>The result of each migrator, written out.\<close>

lemma migrateV1Claim_result:
  "migrateV1Claim pb v1 =
        Some
          (Some
             \<lparr>Version_claim = Some Claim__0_0_1, ClaimType_claim = Some Claim_streamType,
              Stream_claim = Some
                \<lparr>Version_stream = Some Stream__0_0_1,
                 Metadata_stream = Some
                   \<lparr>Version_md = Some Metadata__0_1_0,
                    Language_md = Some (index_map (Metadata_Language_value pb) (Language_v1 v1)),
                    Title_md = Some (Title_v1 v1),
                    Description_md = Some (Description_v1 v1),
                    Author_md = Some (Author_v1 v1),
                    License_md = Some (License_v1 v1),
                    Nsfw_md = Some False,
                    Fee_md = Some
                      (case Fee_v1 v1 of
                         None \<Rightarrow>
                           \<lparr>Version_fee = Some Fee__0_0_1, Currency_fee = None,
                            Address_fee = None, Amount_fee = None\<rparr>
                       | Some fee \<Rightarrow>
                           (case BTC fee of
                              Some i \<Rightarrow>
                                \<lparr>Version_fee = Some Fee__0_0_1, Currency_fee = Some Fee_BTC,
                                 Address_fee = Some (base58_Decode (Address i)),
                                 Amount_fee = Some (Amount i)\<rparr>
                            | None \<Rightarrow>
                                (case LBC fee of
                                   Some i \<Rightarrow>
                                     \<lparr>Version_fee = Some Fee__0_0_1, Currency_fee = Some Fee_LBC,
                                      Address_fee = Some (base58_Decode (Address i)),
                                      Amount_fee = Some (Amount i)\<rparr>
                                 | None \<Rightarrow>
                                     (case USD fee of
                                        Some i \<Rightarrow>
                                          \<lparr>Version_fee = Some Fee__0_0_1,
                                           Currency_fee = Some Fee_USD,
                                           Address_fee = Some (base58_Decode (Address i)),
                                           Amount_fee = Some (Amount i)\<rparr>
                                      | None \<Rightarrow>
                                          \<lparr>Version_fee = Some Fee__0_0_1,
                                           Currency_fee = Some Fee_LBC,
                                           Address_fee = Some (base58_Decode ''''),
                                           Amount_fee = Some 0\<rparr>)))),
                    Thumbnail_md = Thumbnail_v1 v1,
                    LicenseUrl_md = None\<rparr>,
                 Source_stream = Some
                   \<lparr>Version_src = Some Source__0_0_1,
                    SourceType_src =
                      Some (index_map (Source_SourceTypes_value pb) ''lbry_sd_hash''),
                    Source_src = Some (fst (hex_DecodeString (LbrySDHash (Sources_v1 v1)))),
                    ContentType_src = Some (ContentType_v1 v1)\<rparr>\<rparr>,
              PublisherSignature_claim = None\<rparr>,
           snd (hex_DecodeString (LbrySDHash (Sources_v1 v1))))"
proof (cases "Fee_v1 v1")
  case None
  then show ?thesis
    by (simp add: migrateV1Claim_def mig_defs new_Fee_def new_Metadata_def new_Source_def
        lbrySDHash_def split: prod.splits)
next
  case (Some fee)
  then show ?thesis
    by (cases "BTC fee"; cases "LBC fee"; cases "USD fee")
       (simp_all add: migrateV1Claim_def mig_defs new_Fee_def new_Metadata_def new_Source_def
          lbrySDHash_def split: prod.splits)
qed

lemma migrateV2Claim_result:
  "migrateV2Claim pb v2 =
        Some
          (Some
             \<lparr>Version_claim = Some Claim__0_0_1, ClaimType_claim = Some Claim_streamType,
              Stream_claim = Some
                \<lparr>Version_stream = Some Stream__0_0_1,
                 Metadata_stream = Some
                   \<lparr>Version_md = Some Metadata__0_1_0,
                    Language_md = Some (index_map (Metadata_Language_value pb) (Language_v2 v2)),
                    Title_md = Some (Title_v2 v2),
                    Description_md = Some (Description_v2 v2),
                    Author_md = Some (Author_v2 v2),
                    License_md = Some (License_v2 v2),
                    Nsfw_md = Some (NSFW_v2 v2),
                    Fee_md = Some
                      (case Fee_v2 v2 of
                         None \<Rightarrow>
                           \<lparr>Version_fee = Some Fee__0_0_1, Currency_fee = None,
                            Address_fee = None, Amount_fee = None\<rparr>
                       | Some fee \<Rightarrow>
                           (case BTC fee of
                              Some i \<Rightarrow>
                                \<lparr>Version_fee = Some Fee__0_0_1, Currency_fee = Some Fee_BTC,
                                 Address_fee = Some (base58_Decode (Address i)),
                                 Amount_fee = Some (Amount i)\<rparr>
                            | None \<Rightarrow>
                                (case LBC fee of
                                   Some i \<Rightarrow>
                                     \<lparr>Version_fee = Some Fee__0_0_1, Currency_fee = Some Fee_LBC,
                                      Address_fee = Some (base58_Decode (Address i)),
                                      Amount_fee = Some (Amount i)\<rparr>
                                 | None \<Rightarrow>
                                     (case USD fee of
                                        Some i \<Rightarrow>
                                          \<lparr>Version_fee = Some Fee__0_0_1,
                                           Currency_fee = Some Fee_USD,
                                           Address_fee = Some (base58_Decode (Address i)),
                                           Amount_fee = Some (Amount i)\<rparr>
                                      | None \<Rightarrow>
                                          \<lparr>Version_fee = Some Fee__0_0_1,
                                           Currency_fee = Some Fee_LBC,
                                           Address_fee = Some (base58_Decode ''''),
                                           Amount_fee = Some 0\<rparr>)))),
                    Thumbnail_md = Thumbnail_v2 v2,
                    LicenseUrl_md = LicenseURL_v2 v2\<rparr>,
                 Source_stream = Some
                   \<lparr>Version_src = Some Source__0_0_1,
                    SourceType_src =
                      Some (index_map (Source_SourceTypes_value pb) ''lbry_sd_hash''),
                    Source_src = Some (fst (hex_DecodeString (LbrySDHash (Sources_v2 v2)))),
                    ContentType_src = Some (ContentType_v2 v2)\<rparr>\<rparr>,
              PublisherSignature_claim = None\<rparr>,
           snd (hex_DecodeString (LbrySDHash (Sources_v2 v2))))"
proof (cases "Fee_v2 v2")
  case None
  then show ?thesis
    by (simp add: migrateV2Claim_def mig_defs new_Fee_def new_Metadata_def new_Source_def
        lbrySDHash_def split: prod.splits)
next
  case (Some fee)
  then show ?thesis
    by (cases "BTC fee"; cases "LBC fee"; cases "USD fee")
       (simp_all add: migrateV2Claim_def mig_defs new_Fee_def new_Metadata_def new_Source_def
          lbrySDHash_def split: prod.splits)
qed

lemma migrateV3Claim_result:
  "migrateV3Claim pb v3 =
        Some
          (Some
             \<lparr>Version_claim = Some Claim__0_0_1, ClaimType_claim = Some Claim_streamType,
              Stream_claim = Some
                \<lparr>Version_stream = Some Stream__0_0_1,
                 Metadata_stream = Some
                   \<lparr>Version_md = Some Metadata__0_1_0,
                    Language_md = Some (index_map (Metadata_Language_value pb) (Language_v3 v3)),
                    Title_md = Some (Title_v3 v3),
                    Description_md = Some (Description_v3 v3),
                    Author_md = Some (Author_v3 v3),
                    License_md = Some (License_v3 v3),
                    Nsfw_md = Some (NSFW_v3 v3),
                    Fee_md = Some
                      (case Fee_v3 v3 of
                         None \<Rightarrow>
                           \<lparr>Version_fee = Some Fee__0_0_1, Currency_fee = None,
                            Address_fee = None, Amount_fee = None\<rparr>
                       | Some fee \<Rightarrow>
                           (case BTC fee of
                              Some i \<Rightarrow>
                                \<lparr>Version_fee = Some Fee__0_0_1, Currency_fee = Some Fee_BTC,
                                 Address_fee = Some (base58_Decode (Address i)),
                                 Amount_fee = Some (Amount i)\<rparr>
                            | None \<Rightarrow>
                                (case LBC fee of
                                   Some i \<Rightarrow>
                                     \<lparr>Version_fee = Some Fee__0_0_1, Currency_fee = Some Fee_LBC,
                                      Address_fee = Some (base58_Decode (Address i)),
                                      Amount_fee = Some (Amount i)\<rparr>
                                 | None \<Rightarrow>
                                     (case USD fee of
                                        Some i \<Rightarrow>
                                          \<lparr>Version_fee = Some Fee__0_0_1,
                                           Currency_fee = Some Fee_USD,
                                           Address_fee = Some (base58_Decode (Address i)),
                                           Amount_fee = Some (Amount i)\<rparr>
                                      | None \<Rightarrow>
                                          \<lparr>Version_fee = Some Fee__0_0_1,
                                           Currency_fee = Some Fee_LBC,
                                           Address_fee = Some (base58_Decode ''''),
                                           Amount_fee = Some 0\<rparr>)))),
                    Thumbnail_md = Thumbnail_v3 v3,
                    LicenseUrl_md = LicenseURL_v3 v3\<rparr>,
                 Source_stream = Some
                   \<lparr>Version_src = Some Source__0_0_1,
                    SourceType_src =
                      Some (index_map (Source_SourceTypes_value pb) ''lbry_sd_hash''),
                    Source_src = Some (fst (hex_DecodeString (LbrySDHash (Sources_v3 v3)))),
                    ContentType_src = Some (ContentType_v3 v3)\<rparr>\<rparr>,
              PublisherSignature_claim = None\<rparr>,
           snd (hex_DecodeString (LbrySDHash (Sources_v3 v3))))"
proof (cases "Fee_v3 v3")
  case None
  then show ?thesis
    by (simp add: migrateV3Claim_def mig_defs new_Fee_def new_Metadata_def new_Source_def
        lbrySDHash_def split: prod.splits)
next
  case (Some fee)
  then show ?thesis
    by (cases "BTC fee"; cases "LBC fee"; cases "USD fee")
       (simp_all add: migrateV3Claim_def mig_defs new_Fee_def new_Metadata_def new_Source_def
          lbrySDHash_def split: prod.splits)
qed

subsection \<open>The fee sub-message\<close>

text \<open>
  C1, as stated (the Metadata carries a Fee sub-message if and only if the legacy fee
  descriptor was present), fails: \<open>newClaim\<close> attaches a Fee message carrying its
  version tag to every skeleton, and \<open>setFee\<close> leaves it in place when the legacy fee
  is absent. A V1 record without a fee migrates to a claim whose Metadata has a Fee
  sub-message with the version tag alone.
\<close>

theorem fee_presence_counterexample:
  "migrateV1Claim
     \<lparr>Metadata_Language_value = map_of [(''en'', 1)],
      Source_SourceTypes_value = map_of [(''lbry_sd_hash'', 1)]\<rparr>
     \<lparr>Title_v1 = ''title'', Description_v1 = ''text'', Author_v1 = ''author'',
      Language_v1 = ''en'', License_v1 = ''CC0'',
      Sources_v1 = \<lparr>LbrySDHash = ''deadbeef''\<rparr>, ContentType_v1 = ''video/mp4'',
      Thumbnail_v1 = None, Fee_v1 = None\<rparr>
     \<bind> fst \<bind> Fee_of
   = Some \<lparr>Version_fee = Some Fee__0_0_1, Currency_fee = None, Address_fee = None,
            Amount_fee = None\<rparr>"
  by (simp add: migrateV1Claim_def mig_defs of_defs hex_deadbeef new_Fee_def)

text \<open>
  C1, amended: for every legacy record of any version, the migrated claim's Metadata
  carries a Fee sub-message whose version tag is the fixed constant; the currency, the
  amount and the address of that sub-message are set if and only if the legacy fee
  descriptor was present, and all three are unset when it was absent.
\<close>

theorem fee_fields_iff_legacy_fee:
  "(\<exists>c e. migrateV1Claim pb v1 =
       Some (Some c, snd (hex_DecodeString (LbrySDHash (Sources_v1 v1)))) \<and>
     Fee_of c = Some e \<and> Version_fee e = Some Fee__0_0_1 \<and>
     (Currency_fee e \<noteq> None) = (Fee_v1 v1 \<noteq> None) \<and>
     (Amount_fee e \<noteq> None) = (Fee_v1 v1 \<noteq> None) \<and>
     (Address_fee e \<noteq> None) = (Fee_v1 v1 \<noteq> None)) \<and>
   (\<exists>c e. migrateV2Claim pb v2 =
       Some (Some c, snd (hex_DecodeString (LbrySDHash (Sources_v2 v2)))) \<and>
     Fee_of c = Some e \<and> Version_fee e = Some Fee__0_0_1 \<and>
     (Currency_fee e \<noteq> None) = (Fee_v2 v2 \<noteq> None) \<and>
     (Amount_fee e \<noteq> None) = (Fee_v2 v2 \<noteq> None) \<and>
     (Address_fee e \<noteq> None) = (Fee_v2 v2 \<noteq> None)) \<and>
   (\<exists>c e. migrateV3Claim pb v3 =
       Some (Some c, snd (hex_DecodeString (LbrySDHash (Sources_v3 v3)))) \<and>
     Fee_of c = Some e \<and> Version_fee e = Some Fee__0_0_1 \<and>
     (Currency_fee e \<noteq> None) = (Fee_v3 v3 \<noteq> None) \<and>
     (Amount_fee e \<noteq> None) = (Fee_v3 v3 \<noteq> None) \<and>
     (Address_fee e \<noteq> None) = (Fee_v3 v3 \<noteq> None))"
proof (intro conjI)
  show "\<exists>c e. migrateV1Claim pb v1 =
       Some (Some c, snd (hex_DecodeString (LbrySDHash (Sources_v1 v1)))) \<and>
     Fee_of c = Some e \<and> Version_fee e = Some Fee__0_0_1 \<and>
     (Currency_fee e \<noteq> None) = (Fee_v1 v1 \<noteq> None) \<and>
     (Amount_fee e \<noteq> None) = (Fee_v1 v1 \<noteq> None) \<and>
     (Address_fee e \<noteq> None) = (Fee_v1 v1 \<noteq> None)"
    by (cases "Fee_v1 v1")
       (simp_all add: migrateV1Claim_def mig_defs of_defs new_Fee_def split: prod.splits)
  show "\<exists>c e. migrateV2Claim pb v2 =
       Some (Some c, snd (hex_DecodeString (LbrySDHash (Sources_v2 v2)))) \<and>
     Fee_of c = Some e \<and> Version_fee e = Some Fee__0_0_1 \<and>
     (Currency_fee e \<noteq> None) = (Fee_v2 v2 \<noteq> None) \<and>
     (Amount_fee e \<noteq> None) = (Fee_v2 v2 \<noteq> None) \<and>
     (Address_fee e \<noteq> None) = (Fee_v2 v2 \<noteq> None)"
    by (cases "Fee_v2 v2")
       (simp_all add: migrateV2Claim_def mig_defs of_defs new_Fee_def split: prod.splits)
  show "\<exists>c e. migrateV3Claim pb v3 =
       Some (Some c, snd (hex_DecodeString (LbrySDHash (Sources_v3 v3)))) \<and>
     Fee_of c = Some e \<and> Version_fee e = Some Fee__0_0_1 \<and>
     (Currency_fee e \<noteq> None) = (Fee_v3 v3 \<noteq> None) \<and>
     (Amount_fee e \<noteq> None) = (Fee_v3 v3 \<noteq> None) \<and>
     (Address_fee e \<noteq> None) = (Fee_v3 v3 \<noteq> None)"
    by (cases "Fee_v3 v3")
       (simp_all add: migrateV3Claim_def mig_defs of_defs new_Fee_def split: prod.splits)
qed

theorem fee_fields_iff_legacy_fee_witness:
  "(\<exists>c e. migrateV1Claim example_tables example_v1 = Some (Some c, None) \<and>
     Fee_of c = Some e \<and> Version_fee e = Some Fee__0_0_1 \<and>
     Currency_fee e = None \<and> Amount_fee e = None \<and> Address_fee e = None) \<and>
   (\<exists>c e. migrateV2Claim example_tables (example_v2\<lparr>Fee_v2 :=
        Some \<lparr>LBC = None, BTC = Some example_btc, USD = None\<rparr>\<rparr>) = Some (Some c, None) \<and>
     Fee_of c = Some e \<and> Version_fee e = Some Fee__0_0_1 \<and>
     Currency_fee e \<noteq> None \<and> Amount_fee e \<noteq> None \<and> Address_fee e \<noteq> None) \<and>
   (\<exists>c e. migrateV3Claim example_tables example_v3 = Some (Some c, None) \<and>
     Fee_of c = Some e \<and> Version_fee e = Some Fee__0_0_1 \<and>
     Currency_fee e = None \<and> Amount_fee e = None \<and> Address_fee e = None)"
  using fee_fields_iff_legacy_fee [of example_tables example_v1
      "example_v2\<lparr>Fee_v2 := Some \<lparr>LBC = None, BTC = Some example_btc, USD = None\<rparr>\<rparr>"
      example_v3]
  by (simp add: example_v1_def example_v2_def example_v3_def hex_deadbeef)

subsection \<open>A digest that is not valid hexadecimal\<close>

text \<open>
  C2, as stated (a record whose digest is not valid hexadecimal yields an error and no
  partial claim), fails: every migrator ends in \<open>return pbClaim, err\<close>, so the caller
  receives the error together with the claim, populated, its source bytes being what
  the decoder produced before the error. For the digest \<open>abzz\<close> the claim comes back
  with the one byte \<open>0xAB\<close> as its source.
\<close>

theorem bad_digest_counterexample:
  "migrateV1Claim
     \<lparr>Metadata_Language_value = map_of [(''en'', 1)],
      Source_SourceTypes_value = map_of [(''lbry_sd_hash'', 1)]\<rparr>
     \<lparr>Title_v1 = ''title'', Description_v1 = ''text'', Author_v1 = ''author'',
      Language_v1 = ''en'', License_v1 = ''CC0'',
      Sources_v1 = \<lparr>LbrySDHash = ''abzz''\<rparr>, ContentType_v1 = ''video/mp4'',
      Thumbnail_v1 = None, Fee_v1 = None\<rparr>
   = Some
       (Some
          \<lparr>Version_claim = Some Claim__0_0_1, ClaimType_claim = Some Claim_streamType,
           Stream_claim = Some
             \<lparr>Version_stream = Some Stream__0_0_1,
              Metadata_stream = Some
                \<lparr>Version_md = Some Metadata__0_1_0, Language_md = Some 1,
                 Title_md = Some ''title'', Description_md = Some ''text'',
                 Author_md = Some ''author'', License_md = Some ''CC0'',
                 Nsfw_md = Some False,
                 Fee_md = Some \<lparr>Version_fee = Some Fee__0_0_1, Currency_fee = None,
                   Address_fee = None, Amount_fee = None\<rparr>,
                 Thumbnail_md = None, LicenseUrl_md = None\<rparr>,
              Source_stream = Some
                \<lparr>Version_src = Some Source__0_0_1, SourceType_src = Some 1,
                 Source_src = Some [0xAB], ContentType_src = Some ''video/mp4''\<rparr>\<rparr>,
           PublisherSignature_claim = None\<rparr>,
        Some (InvalidByteError CHR ''z''))"
  by (simp add: migrateV1Claim_def mig_defs hex_abzz new_Fee_def new_Metadata_def
      new_Source_def index_map_def lbrySDHash_def)

text \<open>
  C2, amended: for every legacy record of any version whose content digest is not valid
  hexadecimal, migration returns a non-nil error, the hexadecimal decoder's own, and
  returns with it the claim it has populated (not a nil claim): the version tags and
  the claim type are set, every metadata field is filled from the record as for a
  valid digest (the language looked up, the fee normalized), the content type and the
  source type are set, and the source bytes are the bytes the decoder has produced
  before the error.
\<close>

theorem bad_digest_error_with_claim:
  "(\<not> valid_hex (LbrySDHash (Sources_v1 v1)) \<longrightarrow>
     (\<exists>e. snd (hex_DecodeString (LbrySDHash (Sources_v1 v1))) = Some e \<and>
        migrateV1Claim pb v1 =
        Some
          (Some
             \<lparr>Version_claim = Some Claim__0_0_1, ClaimType_claim = Some Claim_streamType,
              Stream_claim = Some
                \<lparr>Version_stream = Some Stream__0_0_1,
                 Metadata_stream = Some
                   \<lparr>Version_md = Some Metadata__0_1_0,
                    Language_md = Some (index_map (Metadata_Language_value pb) (Language_v1 v1)),
                    Title_md = Some (Title_v1 v1),
                    Description_md = Some (Description_v1 v1),
                    Author_md = Some (Author_v1 v1),
                    License_md = Some (License_v1 v1),
                    Nsfw_md = Some False,
                    Fee_md = Some
                      (case Fee_v1 v1 of
                         None \<Rightarrow>
                           \<lparr>Version_fee = Some Fee__0_0_1, Currency_fee = None,
                            Address_fee = None, Amount_fee = None\<rparr>
                       | Some fee \<Rightarrow>
                           (case BTC fee of
                              Some i \<Rightarrow>
                                \<lparr>Version_fee = Some Fee__0_0_1, Currency_fee = Some Fee_BTC,
                                 Address_fee = Some (base58_Decode (Address i)),
                                 Amount_fee = Some (Amount i)\<rparr>
                            | None \<Rightarrow>
                                (case LBC fee of
                                   Some i \<Rightarrow>
                                     \<lparr>Version_fee = Some Fee__0_0_1, Currency_fee = Some Fee_LBC,
                                      Address_fee = Some (base58_Decode (Address i)),
                                      Amount_fee = Some (Amount i)\<rparr>
                                 | None \<Rightarrow>
                                     (case USD fee of
                                        Some i \<Rightarrow>
                                          \<lparr>Version_fee = Some Fee__0_0_1,
                                           Currency_fee = Some Fee_USD,
                                           Address_fee = Some (base58_Decode (Address i)),
                                           Amount_fee = Some (Amount i)\<rparr>
                                      | None \<Rightarrow>
                                          \<lparr>Version_fee = Some Fee__0_0_1,
                                           Currency_fee = Some Fee_LBC,
                                           Address_fee = Some (base58_Decode ''''),
                                           Amount_fee = Some 0\<rparr>)))),
                    Thumbnail_md = Thumbnail_v1 v1,
                    LicenseUrl_md = None\<rparr>,
                 Source_stream = Some
                   \<lparr>Version_src = Some Source__0_0_1,
                    SourceType_src =
                      Some (index_map (Source_SourceTypes_value pb) ''lbry_sd_hash''),
                    Source_src = Some (fst (hex_DecodeString (LbrySDHash (Sources_v1 v1)))),
                    ContentType_src = Some (ContentType_v1 v1)\<rparr>\<rparr>,
              PublisherSignature_claim = None\<rparr>,
           Some e))) \<and>
   (\<not> valid_hex (LbrySDHash (Sources_v2 v2)) \<longrightarrow>
     (\<exists>e. snd (hex_DecodeString (LbrySDHash (Sources_v2 v2))) = Some e \<and>
        migrateV2Claim pb v2 =
        Some
          (Some
             \<lparr>Version_claim = Some Claim__0_0_1, ClaimType_claim = Some Claim_streamType,
              Stream_claim = Some
                \<lparr>Version_stream = Some Stream__0_0_1,
                 Metadata_stream = Some
                   \<lparr>Version_md = Some Metadata__0_1_0,
                    Language_md = Some (index_map (Metadata_Language_value pb) (Language_v2 v2)),
                    Title_md = Some (Title_v2 v2),
                    Description_md = Some (Description_v2 v2),
                    Author_md = Some (Author_v2 v2),
                    License_md = Some (License_v2 v2),
                    Nsfw_md = Some (NSFW_v2 v2),
                    Fee_md = Some
                      (case Fee_v2 v2 of
                         None \<Rightarrow>
                           \<lparr>Version_fee = Some Fee__0_0_1, Currency_fee = None,
                            Address_fee = None, Amount_fee = None\<rparr>
                       | Some fee \<Rightarrow>
                           (case BTC fee of
                              Some i \<Rightarrow>
                                \<lparr>Version_fee = Some Fee__0_0_1, Currency_fee = Some Fee_BTC,
                                 Address_fee = Some (base58_Decode (Address i)),
                                 Amount_fee = Some (Amount i)\<rparr>
                            | None \<Rightarrow>
                                (case LBC fee of
                                   Some i \<Rightarrow>
                                     \<lparr>Version_fee = Some Fee__0_0_1, Currency_fee = Some Fee_LBC,
                                      Address_fee = Some (base58_Decode (Address i)),
                                      Amount_fee = Some (Amount i)\<rparr>
                                 | None \<Rightarrow>
                                     (case USD fee of
                                        Some i \<Rightarrow>
                                          \<lparr>Version_fee = Some Fee__0_0_1,
                                           Currency_fee = Some Fee_USD,
                                           Address_fee = Some (base58_Decode (Address i)),
                                           Amount_fee = Some (Amount i)\<rparr>
                                      | None \<Rightarrow>
                                          \<lparr>Version_fee = Some Fee__0_0_1,
                                           Currency_fee = Some Fee_LBC,
                                           Address_fee = Some (base58_Decode ''''),
                                           Amount_fee = Some 0\<rparr>)))),
                    Thumbnail_md = Thumbnail_v2 v2,
                    LicenseUrl_md = LicenseURL_v2 v2\<rparr>,
                 Source_stream = Some
                   \<lparr>Version_src = Some Source__0_0_1,
                    SourceType_src =
                      Some (index_map (Source_SourceTypes_value pb) ''lbry_sd_hash''),
                    Source_src = Some (fst (hex_DecodeString (LbrySDHash (Sources_v2 v2)))),
                    ContentType_src = Some (ContentType_v2 v2)\<rparr>\<rparr>,
              PublisherSignature_claim = None\<rparr>,
           Some e))) \<and>
   (\<not> valid_hex (LbrySDHash (Sources_v3 v3)) \<longrightarrow>
     (\<exists>e. snd (hex_DecodeString (LbrySDHash (Sources_v3 v3))) = Some e \<and>
        migrateV3Claim pb v3 =
        Some
          (Some
             \<lparr>Version_claim = Some Claim__0_0_1, ClaimType_claim = Some Claim_streamType,
              Stream_claim = Some
                \<lparr>Version_stream = Some Stream__0_0_1,
                 Metadata_stream = Some
                   \<lparr>Version_md = Some Metadata__0_1_0,
                    Language_md = Some (index_map (Metadata_Language_value pb) (Language_v3 v3)),
                    Title_md = Some (Title_v3 v3),
                    Description_md = Some (Description_v3 v3),
                    Author_md = Some (Author_v3 v3),
                    License_md = Some (License_v3 v3),
                    Nsfw_md = Some (NSFW_v3 v3),
                    Fee_md = Some
                      (case Fee_v3 v3 of
                         None \<Rightarrow>
                           \<lparr>Version_fee = Some Fee__0_0_1, Currency_fee = None,
                            Address_fee = None, Amount_fee = None\<rparr>
                       | Some fee \<Rightarrow>
                           (case BTC fee of
                              Some i \<Rightarrow>
                                \<lparr>Version_fee = Some Fee__0_0_1, Currency_fee = Some Fee_BTC,
                                 Address_fee = Some (base58_Decode (Address i)),
                                 Amount_fee = Some (Amount i)\<rparr>
                            | None \<Rightarrow>
                                (case LBC fee of
                                   Some i \<Rightarrow>
                                     \<lparr>Version_fee = Some Fee__0_0_1, Currency_fee = Some Fee_LBC,
                                      Address_fee = Some (base58_Decode (Address i)),
                                      Amount_fee = Some (Amount i)\<rparr>
                                 | None \<Rightarrow>
                                     (case USD fee of
                                        Some i \<Rightarrow>
                                          \<lparr>Version_fee = Some Fee__0_0_1,
                                           Currency_fee = Some Fee_USD,
                                           Address_fee = Some (base58_Decode (Address i)),
                                           Amount_fee = Some (Amount i)\<rparr>
                                      | None \<Rightarrow>
                                          \<lparr>Version_fee = Some Fee__0_0_1,
                                           Currency_fee = Some Fee_LBC,
                                           Address_fee = Some (base58_Decode ''''),
                                           Amount_fee = Some 0\<rparr>)))),
                    Thumbnail_md = Thumbnail_v3 v3,
                    LicenseUrl_md = LicenseURL_v3 v3\<rparr>,
                 Source_stream = Some
                   \<lparr>Version_src = Some Source__0_0_1,
                    SourceType_src =
                      Some (index_map (Source_SourceTypes_value pb) ''lbry_sd_hash''),
                    Source_src = Some (fst (hex_DecodeString (LbrySDHash (Sources_v3 v3)))),
                    ContentType_src = Some (ContentType_v3 v3)\<rparr>\<rparr>,
              PublisherSignature_claim = None\<rparr>,
           Some e)))"
proof -
  have e: "\<And>s. \<not> valid_hex s \<Longrightarrow> \<exists>e. snd (hex_DecodeString s) = Some e"
    using hex_DecodeString_error by auto
  show ?thesis
  proof (intro conjI impI)
    assume "\<not> valid_hex (LbrySDHash (Sources_v1 v1))"
    from e [OF this] obtain x
      where "snd (hex_DecodeString (LbrySDHash (Sources_v1 v1))) = Some x" ..
    then show "\<exists>e. snd (hex_DecodeString (LbrySDHash (Sources_v1 v1))) = Some e \<and>
        migrateV1Claim pb v1 =
        Some
          (Some
             \<lparr>Version_claim = Some Claim__0_0_1, ClaimType_claim = Some Claim_streamType,
              Stream_claim = Some
                \<lparr>Version_stream = Some Stream__0_0_1,
                 Metadata_stream = Some
                   \<lparr>Version_md = Some Metadata__0_1_0,
                    Language_md = Some (index_map (Metadata_Language_value pb) (Language_v1 v1)),
                    Title_md = Some (Title_v1 v1),
                    Description_md = Some (Description_v1 v1),
                    Author_md = Some (Author_v1 v1),
                    License_md = Some (License_v1 v1),
                    Nsfw_md = Some False,
                    Fee_md = Some
                      (case Fee_v1 v1 of
                         None \<Rightarrow>
                           \<lparr>Version_fee = Some Fee__0_0_1, Currency_fee = None,
                            Address_fee = None, Amount_fee = None\<rparr>
                       | Some fee \<Rightarrow>
                           (case BTC fee of
                              Some i \<Rightarrow>
                                \<lparr>Version_fee = Some Fee__0_0_1, Currency_fee = Some Fee_BTC,
                                 Address_fee = Some (base58_Decode (Address i)),
                                 Amount_fee = Some (Amount i)\<rparr>
                            | None \<Rightarrow>
                                (case LBC fee of
                                   Some i \<Rightarrow>
                                     \<lparr>Version_fee = Some Fee__0_0_1, Currency_fee = Some Fee_LBC,
                                      Address_fee = Some (base58_Decode (Address i)),
                                      Amount_fee = Some (Amount i)\<rparr>
                                 | None \<Rightarrow>
                                     (case USD fee of
                                        Some i \<Rightarrow>
                                          \<lparr>Version_fee = Some Fee__0_0_1,
                                           Currency_fee = Some Fee_USD,
                                           Address_fee = Some (base58_Decode (Address i)),
                                           Amount_fee = Some (Amount i)\<rparr>
                                      | None \<Rightarrow>
                                          \<lparr>Version_fee = Some Fee__0_0_1,
                                           Currency_fee = Some Fee_LBC,
                                           Address_fee = Some (base58_Decode ''''),
                                           Amount_fee = Some 0\<rparr>)))),
                    Thumbnail_md = Thumbnail_v1 v1,
                    LicenseUrl_md = None\<rparr>,
                 Source_stream = Some
                   \<lparr>Version_src = Some Source__0_0_1,
                    SourceType_src =
                      Some (index_map (Source_SourceTypes_value pb) ''lbry_sd_hash''),
                    Source_src = Some (fst (hex_DecodeString (LbrySDHash (Sources_v1 v1)))),
                    ContentType_src = Some (ContentType_v1 v1)\<rparr>\<rparr>,
              PublisherSignature_claim = None\<rparr>,
           Some e)"
      using migrateV1Claim_result [of pb v1] by simp
  next
    assume "\<not> valid_hex (LbrySDHash (Sources_v2 v2))"
    from e [OF this] obtain x
      where "snd (hex_DecodeString (LbrySDHash (Sources_v2 v2))) = Some x" ..
    then show "\<exists>e. snd (hex_DecodeString (LbrySDHash (Sources_v2 v2))) = Some e \<and>
        migrateV2Claim pb v2 =
        Some
          (Some
             \<lparr>Version_claim = Some Claim__0_0_1, ClaimType_claim = Some Claim_streamType,
              Stream_claim = Some
                \<lparr>Version_stream = Some Stream__0_0_1,
                 Metadata_stream = Some
                   \<lparr>Version_md = Some Metadata__0_1_0,
                    Language_md = Some (index_map (Metadata_Language_value pb) (Language_v2 v2)),
                    Title_md = Some (Title_v2 v2),
                    Description_md = Some (Description_v2 v2),
                    Author_md = Some (Author_v2 v2),
                    License_md = Some (License_v2 v2),
                    Nsfw_md = Some (NSFW_v2 v2),
                    Fee_md = Some
                      (case Fee_v2 v2 of
                         None \<Rightarrow>
                           \<lparr>Version_fee = Some Fee__0_0_1, Currency_fee = None,
                            Address_fee = None, Amount_fee = None\<rparr>
                       | Some fee \<Rightarrow>
                           (case BTC fee of
                              Some i \<Rightarrow>
                                \<lparr>Version_fee = Some Fee__0_0_1, Currency_fee = Some Fee_BTC,
                                 Address_fee = Some (base58_Decode (Address i)),
                                 Amount_fee = Some (Amount i)\<rparr>
                            | None \<Rightarrow>
                                (case LBC fee of
                                   Some i \<Rightarrow>
                                     \<lparr>Version_fee = Some Fee__0_0_1, Currency_fee = Some Fee_LBC,
                                      Address_fee = Some (base58_Decode (Address i)),
                                      Amount_fee = Some (Amount i)\<rparr>
                                 | None \<Rightarrow>
                                     (case USD fee of
                                        Some i \<Rightarrow>
                                          \<lparr>Version_fee = Some Fee__0_0_1,
                                           Currency_fee = Some Fee_USD,
                                           Address_fee = Some (base58_Decode (Address i)),
                                           Amount_fee = Some (Amount i)\<rparr>
                                      | None \<Rightarrow>
                                          \<lparr>Version_fee = Some Fee__0_0_1,
                                           Currency_fee = Some Fee_LBC,
                                           Address_fee = Some (base58_Decode ''''),
                                           Amount_fee = Some 0\<rparr>)))),
                    Thumbnail_md = Thumbnail_v2 v2,
                    LicenseUrl_md = LicenseURL_v2 v2\<rparr>,
                 Source_stream = Some
                   \<lparr>Version_src = Some Source__0_0_1,
                    SourceType_src =
                      Some (index_map (Source_SourceTypes_value pb) ''lbry_sd_hash''),
                    Source_src = Some (fst (hex_DecodeString (LbrySDHash (Sources_v2 v2)))),
                    ContentType_src = Some (ContentType_v2 v2)\<rparr>\<rparr>,
              PublisherSignature_claim = None\<rparr>,
           Some e)"
      using migrateV2Claim_result [of pb v2] by simp
  next
    assume "\<not> valid_hex (LbrySDHash (Sources_v3 v3))"
    from e [OF this] obtain x
      where "snd (hex_DecodeString (LbrySDHash (Sources_v3 v3))) = Some x" ..
    then show "\<exists>e. snd (hex_DecodeString (LbrySDHash (Sources_v3 v3))) = Some e \<and>
        migrateV3Claim pb v3 =
        Some
          (Some
             \<lparr>Version_claim = Some Claim__0_0_1, ClaimType_claim = Some Claim_streamType,
              Stream_claim = Some
                \<lparr>Version_stream = Some Stream__0_0_1,
                 Metadata_stream = Some
                   \<lparr>Version_md = Some Metadata__0_1_0,
                    Language_md = Some (index_map (Metadata_Language_value pb) (Language_v3 v3)),
                    Title_md = Some (Title_v3 v3),
                    Description_md = Some (Description_v3 v3),
                    Author_md = Some (Author_v3 v3),
                    License_md = Some (License_v3 v3),
                    Nsfw_md = Some (NSFW_v3 v3),
                    Fee_md = Some
                      (case Fee_v3 v3 of
                         None \<Rightarrow>
                           \<lparr>Version_fee = Some Fee__0_0_1, Currency_fee = None,
                            Address_fee = None, Amount_fee = None\<rparr>
                       | Some fee \<Rightarrow>
                           (case BTC fee of
                              Some i \<Rightarrow>
                                \<lparr>Version_fee = Some Fee__0_0_1, Currency_fee = Some Fee_BTC,
                                 Address_fee = Some (base58_Decode (Address i)),
                                 Amount_fee = Some (Amount i)\<rparr>
                            | None \<Rightarrow>
                                (case LBC fee of
                                   Some i \<Rightarrow>
                                     \<lparr>Version_fee = Some Fee__0_0_1, Currency_fee = Some Fee_LBC,
                                      Address_fee = Some (base58_Decode (Address i)),
                                      Amount_fee = Some (Amount i)\<rparr>
                                 | None \<Rightarrow>
                                     (case USD fee of
                                        Some i \<Rightarrow>
                                          \<lparr>Version_fee = Some Fee__0_0_1,
                                           Currency_fee = Some Fee_USD,
                                           Address_fee = Some (base58_Decode (Address i)),
                                           Amount_fee = Some (Amount i)\<rparr>
                                      | None \<Rightarrow>
                                          \<lparr>Version_fee = Some Fee__0_0_1,
                                           Currency_fee = Some Fee_LBC,
                                           Address_fee = Some (base58_Decode ''''),
                                           Amount_fee = Some 0\<rparr>)))),
                    Thumbnail_md = Thumbnail_v3 v3,
                    LicenseUrl_md = LicenseURL_v3 v3\<rparr>,
                 Source_stream = Some
                   \<lparr>Version_src = Some Source__0_0_1,
                    SourceType_src =
                      Some (index_map (Source_SourceTypes_value pb) ''lbry_sd_hash''),
                    Source_src = Some (fst (hex_DecodeString (LbrySDHash (Sources_v3 v3)))),
                    ContentType_src = Some (ContentType_v3 v3)\<rparr>\<rparr>,
              PublisherSignature_claim = None\<rparr>,
           Some e)"
      using migrateV3Claim_result [of pb v3] by simp
  qed
qed

theorem bad_digest_error_with_claim_witness:
  "\<not> valid_hex ''abzz'' \<and>
   migrateV1Claim example_tables
       (example_v1\<lparr>Sources_v1 := \<lparr>LbrySDHash = ''abzz''\<rparr>\<rparr>) =
        Some
          (Some
             \<lparr>Version_claim = Some Claim__0_0_1, ClaimType_claim = Some Claim_streamType,
              Stream_claim = Some
                \<lparr>Version_stream = Some Stream__0_0_1,
                 Metadata_stream = Some
                   \<lparr>Version_md = Some Metadata__0_1_0, Language_md = Some 1,
                    Title_md = Some ''title'', Description_md = Some ''text'',
                    Author_md = Some ''author'', License_md = Some ''CC0'',
                    Nsfw_md = Some False,
                    Fee_md = Some \<lparr>Version_fee = Some Fee__0_0_1, Currency_fee = None,
                      Address_fee = None, Amount_fee = None\<rparr>,
                    Thumbnail_md = None, LicenseUrl_md = None\<rparr>,
                 Source_stream = Some
                   \<lparr>Version_src = Some Source__0_0_1, SourceType_src = Some 1,
                    Source_src = Some [0xAB], ContentType_src = Some ''video/mp4''\<rparr>\<rparr>,
              PublisherSignature_claim = None\<rparr>,
           Some (InvalidByteError CHR ''z'')) \<and>
   migrateV2Claim example_tables
       (example_v2\<lparr>Sources_v2 := \<lparr>LbrySDHash = ''abzz''\<rparr>,
        Fee_v2 := Some \<lparr>LBC = None, BTC = Some example_btc, USD = Some example_usd\<rparr>\<rparr>) =
        Some
          (Some
             \<lparr>Version_claim = Some Claim__0_0_1, ClaimType_claim = Some Claim_streamType,
              Stream_claim = Some
                \<lparr>Version_stream = Some Stream__0_0_1,
                 Metadata_stream = Some
                   \<lparr>Version_md = Some Metadata__0_1_0, Language_md = Some 1,
                    Title_md = Some ''title'', Description_md = Some ''text'',
                    Author_md = Some ''author'', License_md = Some ''CC0'',
                    Nsfw_md = Some True,
                    Fee_md = Some \<lparr>Version_fee = Some Fee__0_0_1, Currency_fee = Some Fee_BTC,
                      Address_fee = Some [97], Amount_fee = Some 0x3F800000\<rparr>,
                    Thumbnail_md = None, LicenseUrl_md = Some ''http://x.io/l''\<rparr>,
                 Source_stream = Some
                   \<lparr>Version_src = Some Source__0_0_1, SourceType_src = Some 1,
                    Source_src = Some [0xAB], ContentType_src = Some ''video/mp4''\<rparr>\<rparr>,
              PublisherSignature_claim = None\<rparr>,
           Some (InvalidByteError CHR ''z'')) \<and>
   migrateV3Claim example_tables
       (example_v3\<lparr>Sources_v3 := \<lparr>LbrySDHash = ''abzz''\<rparr>\<rparr>) =
        Some
          (Some
             \<lparr>Version_claim = Some Claim__0_0_1, ClaimType_claim = Some Claim_streamType,
              Stream_claim = Some
                \<lparr>Version_stream = Some Stream__0_0_1,
                 Metadata_stream = Some
                   \<lparr>Version_md = Some Metadata__0_1_0, Language_md = Some 1,
                    Title_md = Some ''title'', Description_md = Some ''text'',
                    Author_md = Some ''author'', License_md = Some ''CC0'',
                    Nsfw_md = Some True,
                    Fee_md = Some \<lparr>Version_fee = Some Fee__0_0_1, Currency_fee = None,
                      Address_fee = None, Amount_fee = None\<rparr>,
                    Thumbnail_md = None, LicenseUrl_md = Some ''http://x.io/l''\<rparr>,
                 Source_stream = Some
                   \<lparr>Version_src = Some Source__0_0_1, SourceType_src = Some 1,
                    Source_src = Some [0xAB], ContentType_src = Some ''video/mp4''\<rparr>\<rparr>,
              PublisherSignature_claim = None\<rparr>,
           Some (InvalidByteError CHR ''z''))"
  using bad_digest_error_with_claim [of
      "example_v1\<lparr>Sources_v1 := \<lparr>LbrySDHash = ''abzz''\<rparr>\<rparr>" example_tables
      "example_v2\<lparr>Sources_v2 := \<lparr>LbrySDHash = ''abzz''\<rparr>,
        Fee_v2 := Some \<lparr>LBC = None, BTC = Some example_btc, USD = Some example_usd\<rparr>\<rparr>"
      "example_v3\<lparr>Sources_v3 := \<lparr>LbrySDHash = ''abzz''\<rparr>\<rparr>"]
    not_valid_hex_abzz
  by (simp add: example_v1_def example_v2_def example_v3_def example_tables_def
      example_btc_def example_usd_def hex_abzz index_map_def base58_2g)

subsection \<open>Version tags and the claim type\<close>

text \<open>
  C3: every claim that \<open>migrateV1Claim\<close>, \<open>migrateV2Claim\<close> or \<open>migrateV3Claim\<close>
  produces has the version tags of Claim, Stream, Metadata, Source and Fee and the
  claim type equal to the fixed constants, whatever the input record (and whatever
  the name tables).
\<close>

theorem version_tags_constant:
  "(\<exists>c. migrateV1Claim pb v1 =
       Some (Some c, snd (hex_DecodeString (LbrySDHash (Sources_v1 v1)))) \<and>
     Version_claim c = Some Claim__0_0_1 \<and>
     ClaimType_claim c = Some Claim_streamType \<and>
     GetStream (Some c) \<bind> Version_stream = Some Stream__0_0_1 \<and>
     Metadata_of c \<bind> Version_md = Some Metadata__0_1_0 \<and>
     Source_of c \<bind> Version_src = Some Source__0_0_1 \<and>
     Fee_of c \<bind> Version_fee = Some Fee__0_0_1) \<and>
   (\<exists>c. migrateV2Claim pb v2 =
       Some (Some c, snd (hex_DecodeString (LbrySDHash (Sources_v2 v2)))) \<and>
     Version_claim c = Some Claim__0_0_1 \<and>
     ClaimType_claim c = Some Claim_streamType \<and>
     GetStream (Some c) \<bind> Version_stream = Some Stream__0_0_1 \<and>
     Metadata_of c \<bind> Version_md = Some Metadata__0_1_0 \<and>
     Source_of c \<bind> Version_src = Some Source__0_0_1 \<and>
     Fee_of c \<bind> Version_fee = Some Fee__0_0_1) \<and>
   (\<exists>c. migrateV3Claim pb v3 =
       Some (Some c, snd (hex_DecodeString (LbrySDHash (Sources_v3 v3)))) \<and>
     Version_claim c = Some Claim__0_0_1 \<and>
     ClaimType_claim c = Some Claim_streamType \<and>
     GetStream (Some c) \<bind> Version_stream = Some Stream__0_0_1 \<and>
     Metadata_of c \<bind> Version_md = Some Metadata__0_1_0 \<and>
     Source_of c \<bind> Version_src = Some Source__0_0_1 \<and>
     Fee_of c \<bind> Version_fee = Some Fee__0_0_1)"
proof (intro conjI)
  show "\<exists>c. migrateV1Claim pb v1 =
       Some (Some c, snd (hex_DecodeString (LbrySDHash (Sources_v1 v1)))) \<and>
     Version_claim c = Some Claim__0_0_1 \<and>
     ClaimType_claim c = Some Claim_streamType \<and>
     GetStream (Some c) \<bind> Version_stream = Some Stream__0_0_1 \<and>
     Metadata_of c \<bind> Version_md = Some Metadata__0_1_0 \<and>
     Source_of c \<bind> Version_src = Some Source__0_0_1 \<and>
     Fee_of c \<bind> Version_fee = Some Fee__0_0_1"
    by (cases "Fee_v1 v1")
       (simp_all add: migrateV1Claim_def mig_defs of_defs split: prod.splits)
  show "\<exists>c. migrateV2Claim pb v2 =
       Some (Some c, snd (hex_DecodeString (LbrySDHash (Sources_v2 v2)))) \<and>
     Version_claim c = Some Claim__0_0_1 \<and>
     ClaimType_claim c = Some Claim_streamType \<and>
     GetStream (Some c) \<bind> Version_stream = Some Stream__0_0_1 \<and>
     Metadata_of c \<bind> Version_md = Some Metadata__0_1_0 \<and>
     Source_of c \<bind> Version_src = Some Source__0_0_1 \<and>
     Fee_of c \<bind> Version_fee = Some Fee__0_0_1"
    by (cases "Fee_v2 v2")
       (simp_all add: migrateV2Claim_def mig_defs of_defs split: prod.splits)
  show "\<exists>c. migrateV3Claim pb v3 =
       Some (Some c, snd (hex_DecodeString (LbrySDHash (Sources_v3 v3)))) \<and>
     Version_claim c = Some Claim__0_0_1 \<and>
     ClaimType_claim c = Some Claim_streamType \<and>
     GetStream (Some c) \<bind> Version_stream = Some Stream__0_0_1 \<and>
     Metadata_of c \<bind> Version_md = Some Metadata__0_1_0 \<and>
     Source_of c \<bind> Version_src = Some Source__0_0_1 \<and>
     Fee_of c \<bind> Version_fee = Some Fee__0_0_1"
    by (cases "Fee_v3 v3")
       (simp_all add: migrateV3Claim_def mig_defs of_defs split: prod.splits)
qed

theorem version_tags_constant_witness:
  "(\<exists>c. migrateV1Claim example_tables example_v1 = Some (Some c, None) \<and>
     Version_claim c = Some Claim__0_0_1 \<and>
     ClaimType_claim c = Some Claim_streamType \<and>
     GetStream (Some c) \<bind> Version_stream = Some Stream__0_0_1 \<and>
     Metadata_of c \<bind> Version_md = Some Metadata__0_1_0 \<and>
     Source_of c \<bind> Version_src = Some Source__0_0_1 \<and>
     Fee_of c \<bind> Version_fee = Some Fee__0_0_1)"
  using version_tags_constant [of example_tables example_v1 example_v2 example_v3]
  by (simp add: example_v1_def hex_deadbeef)

subsection \<open>The fee normalizer\<close>

text \<open>
  C4: for every present legacy fee descriptor, \<open>setFee\<close> looks at the branches in the
  order BTC, LBC, USD, and the first populated one alone gives the currency, the
  amount and the address string that is handed to the base58 decoder; branches after
  it are ignored, so that with BTC and USD both populated the currency is BTC. The
  claim \<open>c\<close> is any claim with a Fee sub-message allocated, as the skeleton has.
\<close>

theorem setFee_branch_priority:
  assumes "Fee_of c = Some e"
  shows "\<exists>c'. setFee (Some fee) c = Some c' \<and>
    (\<forall>i. BTC fee = Some i \<longrightarrow>
       Fee_of c' = Some (e\<lparr>Amount_fee := Some (Amount i), Currency_fee := Some Fee_BTC,
                           Address_fee := Some (base58_Decode (Address i))\<rparr>)) \<and>
    (\<forall>i. BTC fee = None \<and> LBC fee = Some i \<longrightarrow>
       Fee_of c' = Some (e\<lparr>Amount_fee := Some (Amount i), Currency_fee := Some Fee_LBC,
                           Address_fee := Some (base58_Decode (Address i))\<rparr>)) \<and>
    (\<forall>i. BTC fee = None \<and> LBC fee = None \<and> USD fee = Some i \<longrightarrow>
       Fee_of c' = Some (e\<lparr>Amount_fee := Some (Amount i), Currency_fee := Some Fee_USD,
                           Address_fee := Some (base58_Decode (Address i))\<rparr>))"
  using assms
  by (auto simp add: setFee_def store_defs of_defs split: option.splits prod.splits)

theorem setFee_branch_priority_witness:
  "newClaim \<bind> setFee (Some \<lparr>LBC = None, BTC = Some example_btc, USD = Some example_usd\<rparr>)
       \<bind> Fee_of
     = Some \<lparr>Version_fee = Some Fee__0_0_1, Currency_fee = Some Fee_BTC,
         Address_fee = Some [97], Amount_fee = Some 0x3F800000\<rparr> \<and>
   newClaim \<bind> setFee (Some \<lparr>LBC = Some example_lbc, BTC = None, USD = Some example_usd\<rparr>)
       \<bind> Fee_of
     = Some \<lparr>Version_fee = Some Fee__0_0_1, Currency_fee = Some Fee_LBC,
         Address_fee = Some [156], Amount_fee = Some 0x40000000\<rparr> \<and>
   newClaim \<bind> setFee (Some \<lparr>LBC = None, BTC = None, USD = Some example_usd\<rparr>)
       \<bind> Fee_of
     = Some \<lparr>Version_fee = Some Fee__0_0_1, Currency_fee = Some Fee_USD,
         Address_fee = Some [], Amount_fee = Some 0x40400000\<rparr>"
proof -
  obtain c where c: "newClaim = Some c"
    and e: "Fee_of c = Some (new_Fee\<lparr>Version_fee := Some Fee__0_0_1\<rparr>)"
    by (simp add: newClaim_skeleton of_defs store_defs)
  have usd: "base58_Decode ''0OIl'' = []"
    using base58_Decode_malformed not_valid_base58_0OIl by blast
  show ?thesis
    using
      setFee_branch_priority [OF e,
        of "\<lparr>LBC = None, BTC = Some example_btc, USD = Some example_usd\<rparr>"]
      setFee_branch_priority [OF e,
        of "\<lparr>LBC = Some example_lbc, BTC = None, USD = Some example_usd\<rparr>"]
      setFee_branch_priority [OF e,
        of "\<lparr>LBC = None, BTC = None, USD = Some example_usd\<rparr>"]
    by (auto simp add: c new_Fee_def example_btc_def example_lbc_def example_usd_def
        base58_2g base58_3h usd)
qed

text \<open>
  C5: for every present legacy fee descriptor with none of the BTC, LBC and USD
  branches populated, \<open>setFee\<close> returns normally and the Fee has the currency LBC, the
  amount 0.0 and an address of zero length (the decoding of the empty string).
\<close>

theorem setFee_no_branch:
  assumes "Fee_of c = Some e"
    and "BTC fee = None" and "LBC fee = None" and "USD fee = None"
  shows "\<exists>c'. setFee (Some fee) c = Some c' \<and>
    Fee_of c' = Some (e\<lparr>Amount_fee := Some 0, Currency_fee := Some Fee_LBC,
                        Address_fee := Some []\<rparr>)"
  using assms
  by (auto simp add: setFee_def store_defs of_defs base58_Decode_empty
      split: option.splits prod.splits)

theorem setFee_no_branch_witness:
  "newClaim \<bind> setFee (Some \<lparr>LBC = None, BTC = None, USD = None\<rparr>) \<bind> Fee_of
     = Some \<lparr>Version_fee = Some Fee__0_0_1, Currency_fee = Some Fee_LBC,
         Address_fee = Some [], Amount_fee = Some 0\<rparr>"
proof -
  obtain c where c: "newClaim = Some c"
    and e: "Fee_of c = Some (new_Fee\<lparr>Version_fee := Some Fee__0_0_1\<rparr>)"
    by (simp add: newClaim_skeleton of_defs store_defs)
  show ?thesis
    using setFee_no_branch [OF e, of "\<lparr>LBC = None, BTC = None, USD = None\<rparr>"]
    by (auto simp add: c new_Fee_def)
qed

subsection \<open>Metadata defaults and the language code\<close>

text \<open>
  C6: a migrated V1 record has NSFW set to false and no license URL; a migrated V2 or
  V3 record has the NSFW flag and the license URL of the input.
\<close>

theorem nsfw_and_license_url:
  "(\<exists>c d. migrateV1Claim pb v1 =
       Some (Some c, snd (hex_DecodeString (LbrySDHash (Sources_v1 v1)))) \<and>
     Metadata_of c = Some d \<and> Nsfw_md d = Some False \<and> LicenseUrl_md d = None) \<and>
   (\<exists>c d. migrateV2Claim pb v2 =
       Some (Some c, snd (hex_DecodeString (LbrySDHash (Sources_v2 v2)))) \<and>
     Metadata_of c = Some d \<and> Nsfw_md d = Some (NSFW_v2 v2) \<and>
     LicenseUrl_md d = LicenseURL_v2 v2) \<and>
   (\<exists>c d. migrateV3Claim pb v3 =
       Some (Some c, snd (hex_DecodeString (LbrySDHash (Sources_v3 v3)))) \<and>
     Metadata_of c = Some d \<and> Nsfw_md d = Some (NSFW_v3 v3) \<and>
     LicenseUrl_md d = LicenseURL_v3 v3)"
proof (intro conjI)
  show "\<exists>c d. migrateV1Claim pb v1 =
       Some (Some c, snd (hex_DecodeString (LbrySDHash (Sources_v1 v1)))) \<and>
     Metadata_of c = Some d \<and> Nsfw_md d = Some False \<and> LicenseUrl_md d = None"
    by (cases "Fee_v1 v1")
       (simp_all add: migrateV1Claim_def mig_defs of_defs split: prod.splits)
  show "\<exists>c d. migrateV2Claim pb v2 =
       Some (Some c, snd (hex_DecodeString (LbrySDHash (Sources_v2 v2)))) \<and>
     Metadata_of c = Some d \<and> Nsfw_md d = Some (NSFW_v2 v2) \<and>
     LicenseUrl_md d = LicenseURL_v2 v2"
    by (cases "Fee_v2 v2")
       (simp_all add: migrateV2Claim_def mig_defs of_defs split: prod.splits)
  show "\<exists>c d. migrateV3Claim pb v3 =
       Some (Some c, snd (hex_DecodeString (LbrySDHash (Sources_v3 v3)))) \<and>
     Metadata_of c = Some d \<and> Nsfw_md d = Some (NSFW_v3 v3) \<and>
     LicenseUrl_md d = LicenseURL_v3 v3"
    by (cases "Fee_v3 v3")
       (simp_all add: migrateV3Claim_def mig_defs of_defs split: prod.splits)
qed

theorem nsfw_and_license_url_witness:
  "(\<exists>c d. migrateV1Claim example_tables example_v1 = Some (Some c, None) \<and>
     Metadata_of c = Some d \<and> Nsfw_md d = Some False \<and> LicenseUrl_md d = None) \<and>
   (\<exists>c d. migrateV2Claim example_tables example_v2 = Some (Some c, None) \<and>
     Metadata_of c = Some d \<and> Nsfw_md d = Some True \<and>
     LicenseUrl_md d = Some ''http://x.io/l'') \<and>
   (\<exists>c d. migrateV3Claim example_tables example_v3 = Some (Some c, None) \<and>
     Metadata_of c = Some d \<and> Nsfw_md d = Some True \<and>
     LicenseUrl_md d = Some ''http://x.io/l'')"
  using nsfw_and_license_url [of example_tables example_v1 example_v2 example_v3]
  by (simp add: example_v1_def example_v2_def example_v3_def hex_deadbeef)

text \<open>
  C7: the language text of a legacy record is looked up, as it is, in the table
  \<open>Metadata_Language_value\<close>: the language of the migrated claim is the table's code
  for that very string when there is one and the zero value otherwise; an unmatched
  language is no error, the error result being the one of the digest's decoding.
\<close>

theorem language_lookup:
  "(\<exists>c d. migrateV1Claim pb v1 =
       Some (Some c, snd (hex_DecodeString (LbrySDHash (Sources_v1 v1)))) \<and>
     Metadata_of c = Some d \<and>
     (\<forall>n. Metadata_Language_value pb (Language_v1 v1) = Some n \<longrightarrow> Language_md d = Some n) \<and>
     (Metadata_Language_value pb (Language_v1 v1) = None \<longrightarrow> Language_md d = Some 0)) \<and>
   (\<exists>c d. migrateV2Claim pb v2 =
       Some (Some c, snd (hex_DecodeString (LbrySDHash (Sources_v2 v2)))) \<and>
     Metadata_of c = Some d \<and>
     (\<forall>n. Metadata_Language_value pb (Language_v2 v2) = Some n \<longrightarrow> Language_md d = Some n) \<and>
     (Metadata_Language_value pb (Language_v2 v2) = None \<longrightarrow> Language_md d = Some 0)) \<and>
   (\<exists>c d. migrateV3Claim pb v3 =
       Some (Some c, snd (hex_DecodeString (LbrySDHash (Sources_v3 v3)))) \<and>
     Metadata_of c = Some d \<and>
     (\<forall>n. Metadata_Language_value pb (Language_v3 v3) = Some n \<longrightarrow> Language_md d = Some n) \<and>
     (Metadata_Language_value pb (Language_v3 v3) = None \<longrightarrow> Language_md d = Some 0))"
proof (intro conjI)
  show "\<exists>c d. migrateV1Claim pb v1 =
       Some (Some c, snd (hex_DecodeString (LbrySDHash (Sources_v1 v1)))) \<and>
     Metadata_of c = Some d \<and>
     (\<forall>n. Metadata_Language_value pb (Language_v1 v1) = Some n \<longrightarrow> Language_md d = Some n) \<and>
     (Metadata_Language_value pb (Language_v1 v1) = None \<longrightarrow> Language_md d = Some 0)"
    by (cases "Fee_v1 v1")
       (simp_all add: migrateV1Claim_def mig_defs of_defs index_map_def split: prod.splits)
  show "\<exists>c d. migrateV2Claim pb v2 =
       Some (Some c, snd (hex_DecodeString (LbrySDHash (Sources_v2 v2)))) \<and>
     Metadata_of c = Some d \<and>
     (\<forall>n. Metadata_Language_value pb (Language_v2 v2) = Some n \<longrightarrow> Language_md d = Some n) \<and>
     (Metadata_Language_value pb (Language_v2 v2) = None \<longrightarrow> Language_md d = Some 0)"
    by (cases "Fee_v2 v2")
       (simp_all add: migrateV2Claim_def mig_defs of_defs index_map_def split: prod.splits)
  show "\<exists>c d. migrateV3Claim pb v3 =
       Some (Some c, snd (hex_DecodeString (LbrySDHash (Sources_v3 v3)))) \<and>
     Metadata_of c = Some d \<and>
     (\<forall>n. Metadata_Language_value pb (Language_v3 v3) = Some n \<longrightarrow> Language_md d = Some n) \<and>
     (Metadata_Language_value pb (Language_v3 v3) = None \<longrightarrow> Language_md d = Some 0)"
    by (cases "Fee_v3 v3")
       (simp_all add: migrateV3Claim_def mig_defs of_defs index_map_def split: prod.splits)
qed

theorem language_lookup_witness:
  "Metadata_Language_value example_tables ''en'' = Some 1 \<and>
   Metadata_Language_value example_tables ''EN'' = None \<and>
   (\<exists>c d. migrateV1Claim example_tables example_v1 = Some (Some c, None) \<and>
     Metadata_of c = Some d \<and> Language_md d = Some 1) \<and>
   (\<exists>c d. migrateV2Claim example_tables (example_v2\<lparr>Language_v2 := ''EN''\<rparr>)
       = Some (Some c, None) \<and>
     Metadata_of c = Some d \<and> Language_md d = Some 0) \<and>
   (\<exists>c d. migrateV3Claim example_tables (example_v3\<lparr>Language_v3 := ''klingon''\<rparr>)
       = Some (Some c, None) \<and>
     Metadata_of c = Some d \<and> Language_md d = Some 0)"
  using language_lookup [of example_tables example_v1
      "example_v2\<lparr>Language_v2 := ''EN''\<rparr>" "example_v3\<lparr>Language_v3 := ''klingon''\<rparr>"]
  by (simp add: example_v1_def example_v2_def example_v3_def example_tables_def hex_deadbeef)

subsection \<open>The payment address\<close>

text \<open>
  C8: with a present legacy fee, the address bytes of the migrated Fee are always the
  base58 decoding of the address string of the first populated branch of the
  descriptor (BTC, then LBC, then USD), and of the empty string when no branch is
  populated; the decoder gives the zero-length byte sequence for every string with a
  character outside the base58 alphabet; and the error result of the migration is
  that of the digest's decoding alone, so an undecodable address never aborts it.
\<close>

theorem address_decoding_lenient:
  "(\<not> valid_base58 a \<longrightarrow> base58_Decode a = []) \<and>
   (\<forall>fee. Fee_v1 v1 = Some fee \<longrightarrow>
     (\<exists>c e. migrateV1Claim pb v1 =
         Some (Some c, snd (hex_DecodeString (LbrySDHash (Sources_v1 v1)))) \<and>
       Fee_of c = Some e \<and>
       (\<forall>i. BTC fee = Some i \<longrightarrow> Address_fee e = Some (base58_Decode (Address i))) \<and>
       (\<forall>i. BTC fee = None \<and> LBC fee = Some i \<longrightarrow>
          Address_fee e = Some (base58_Decode (Address i))) \<and>
       (\<forall>i. BTC fee = None \<and> LBC fee = None \<and> USD fee = Some i \<longrightarrow>
          Address_fee e = Some (base58_Decode (Address i))) \<and>
       (BTC fee = None \<and> LBC fee = None \<and> USD fee = None \<longrightarrow>
          Address_fee e = Some (base58_Decode '''')))) \<and>
   (\<forall>fee. Fee_v2 v2 = Some fee \<longrightarrow>
     (\<exists>c e. migrateV2Claim pb v2 =
         Some (Some c, snd (hex_DecodeString (LbrySDHash (Sources_v2 v2)))) \<and>
       Fee_of c = Some e \<and>
       (\<forall>i. BTC fee = Some i \<longrightarrow> Address_fee e = Some (base58_Decode (Address i))) \<and>
       (\<forall>i. BTC fee = None \<and> LBC fee = Some i \<longrightarrow>
          Address_fee e = Some (base58_Decode (Address i))) \<and>
       (\<forall>i. BTC fee = None \<and> LBC fee = None \<and> USD fee = Some i \<longrightarrow>
          Address_fee e = Some (base58_Decode (Address i))) \<and>
       (BTC fee = None \<and> LBC fee = None \<and> USD fee = None \<longrightarrow>
          Address_fee e = Some (base58_Decode '''')))) \<and>
   (\<forall>fee. Fee_v3 v3 = Some fee \<longrightarrow>
     (\<exists>c e. migrateV3Claim pb v3 =
         Some (Some c, snd (hex_DecodeString (LbrySDHash (Sources_v3 v3)))) \<and>
       Fee_of c = Some e \<and>
       (\<forall>i. BTC fee = Some i \<longrightarrow> Address_fee e = Some (base58_Decode (Address i))) \<and>
       (\<forall>i. BTC fee = None \<and> LBC fee = Some i \<longrightarrow>
          Address_fee e = Some (base58_Decode (Address i))) \<and>
       (\<forall>i. BTC fee = None \<and> LBC fee = None \<and> USD fee = Some i \<longrightarrow>
          Address_fee e = Some (base58_Decode (Address i))) \<and>
       (BTC fee = None \<and> LBC fee = None \<and> USD fee = None \<longrightarrow>
          Address_fee e = Some (base58_Decode ''''))))"
proof (intro conjI allI)
  show "\<not> valid_base58 a \<longrightarrow> base58_Decode a = []"
    using base58_Decode_malformed by blast
next
  fix fee
  show "Fee_v1 v1 = Some fee \<longrightarrow>
     (\<exists>c e. migrateV1Claim pb v1 =
         Some (Some c, snd (hex_DecodeString (LbrySDHash (Sources_v1 v1)))) \<and>
       Fee_of c = Some e \<and>
       (\<forall>i. BTC fee = Some i \<longrightarrow> Address_fee e = Some (base58_Decode (Address i))) \<and>
       (\<forall>i. BTC fee = None \<and> LBC fee = Some i \<longrightarrow>
          Address_fee e = Some (base58_Decode (Address i))) \<and>
       (\<forall>i. BTC fee = None \<and> LBC fee = None \<and> USD fee = Some i \<longrightarrow>
          Address_fee e = Some (base58_Decode (Address i))) \<and>
       (BTC fee = None \<and> LBC fee = None \<and> USD fee = None \<longrightarrow>
          Address_fee e = Some (base58_Decode '''')))"
    by (cases "BTC fee"; cases "LBC fee"; cases "USD fee")
       (auto simp add: migrateV1Claim_def mig_defs of_defs split: prod.splits)
next
  fix fee
  show "Fee_v2 v2 = Some fee \<longrightarrow>
     (\<exists>c e. migrateV2Claim pb v2 =
         Some (Some c, snd (hex_DecodeString (LbrySDHash (Sources_v2 v2)))) \<and>
       Fee_of c = Some e \<and>
       (\<forall>i. BTC fee = Some i \<longrightarrow> Address_fee e = Some (base58_Decode (Address i))) \<and>
       (\<forall>i. BTC fee = None \<and> LBC fee = Some i \<longrightarrow>
          Address_fee e = Some (base58_Decode (Address i))) \<and>
       (\<forall>i. BTC fee = None \<and> LBC fee = None \<and> USD fee = Some i \<longrightarrow>
          Address_fee e = Some (base58_Decode (Address i))) \<and>
       (BTC fee = None \<and> LBC fee = None \<and> USD fee = None \<longrightarrow>
          Address_fee e = Some (base58_Decode '''')))"
    by (cases "BTC fee"; cases "LBC fee"; cases "USD fee")
       (auto simp add: migrateV2Claim_def mig_defs of_defs split: prod.splits)
next
  fix fee
  show "Fee_v3 v3 = Some fee \<longrightarrow>
     (\<exists>c e. migrateV3Claim pb v3 =
         Some (Some c, snd (hex_DecodeString (LbrySDHash (Sources_v3 v3)))) \<and>
       Fee_of c = Some e \<and>
       (\<forall>i. BTC fee = Some i \<longrightarrow> Address_fee e = Some (base58_Decode (Address i))) \<and>
       (\<forall>i. BTC fee = None \<and> LBC fee = Some i \<longrightarrow>
          Address_fee e = Some (base58_Decode (Address i))) \<and>
       (\<forall>i. BTC fee = None \<and> LBC fee = None \<and> USD fee = Some i \<longrightarrow>
          Address_fee e = Some (base58_Decode (Address i))) \<and>
       (BTC fee = None \<and> LBC fee = None \<and> USD fee = None \<longrightarrow>
          Address_fee e = Some (base58_Decode '''')))"
    by (cases "BTC fee"; cases "LBC fee"; cases "USD fee")
       (auto simp add: migrateV3Claim_def mig_defs of_defs split: prod.splits)
qed

theorem address_decoding_lenient_witness:
  "\<not> valid_base58 ''0OIl'' \<and> base58_Decode ''0OIl'' = [] \<and>
   (\<exists>c e. migrateV1Claim example_tables
        (example_v1\<lparr>Fee_v1 := Some \<lparr>LBC = None, BTC = None, USD = Some example_usd\<rparr>\<rparr>)
        = Some (Some c, None) \<and>
      Fee_of c = Some e \<and> Address_fee e = Some []) \<and>
   (\<exists>c e. migrateV2Claim example_tables
        (example_v2\<lparr>Fee_v2 := Some \<lparr>LBC = Some example_lbc, BTC = Some example_btc, USD = Some example_usd\<rparr>\<rparr>)
        = Some (Some c, None) \<and>
      Fee_of c = Some e \<and> Address_fee e = Some [97]) \<and>
   (\<exists>c e. migrateV3Claim example_tables
        (example_v3\<lparr>Fee_v3 := Some \<lparr>LBC = Some example_lbc, BTC = None, USD = Some example_usd\<rparr>\<rparr>)
        = Some (Some c, None) \<and>
      Fee_of c = Some e \<and> Address_fee e = Some [156]) \<and>
   (\<exists>c e. migrateV1Claim example_tables
        (example_v1\<lparr>Fee_v1 := Some \<lparr>LBC = None, BTC = None, USD = None\<rparr>\<rparr>)
        = Some (Some c, None) \<and>
      Fee_of c = Some e \<and> Address_fee e = Some [])"
  using address_decoding_lenient [of "''0OIl''"
      "example_v1\<lparr>Fee_v1 := Some \<lparr>LBC = None, BTC = None, USD = Some example_usd\<rparr>\<rparr>"
      example_tables
      "example_v2\<lparr>Fee_v2 := Some \<lparr>LBC = Some example_lbc, BTC = Some example_btc, USD = Some example_usd\<rparr>\<rparr>"
      "example_v3\<lparr>Fee_v3 := Some \<lparr>LBC = Some example_lbc, BTC = None, USD = Some example_usd\<rparr>\<rparr>"]
    address_decoding_lenient [of "''0OIl''"
      "example_v1\<lparr>Fee_v1 := Some \<lparr>LBC = None, BTC = None, USD = None\<rparr>\<rparr>"
      example_tables example_v2 example_v3]
    not_valid_base58_0OIl
  by (auto simp add: example_v1_def example_v2_def example_v3_def example_btc_def
      example_lbc_def example_usd_def hex_deadbeef base58_Decode_empty base58_2g base58_3h)

subsection \<open>The publisher signature\<close>

text \<open>
  C9: the claim migrated from a legacy record of any version has no publisher
  signature, whatever the input.
\<close>

theorem publisher_signature_absent:
  "(\<exists>c. migrateV1Claim pb v1 =
       Some (Some c, snd (hex_DecodeString (LbrySDHash (Sources_v1 v1)))) \<and>
     PublisherSignature_claim c = None) \<and>
   (\<exists>c. migrateV2Claim pb v2 =
       Some (Some c, snd (hex_DecodeString (LbrySDHash (Sources_v2 v2)))) \<and>
     PublisherSignature_claim c = None) \<and>
   (\<exists>c. migrateV3Claim pb v3 =
       Some (Some c, snd (hex_DecodeString (LbrySDHash (Sources_v3 v3)))) \<and>
     PublisherSignature_claim c = None)"
proof (intro conjI)
  show "\<exists>c. migrateV1Claim pb v1 =
       Some (Some c, snd (hex_DecodeString (LbrySDHash (Sources_v1 v1)))) \<and>
     PublisherSignature_claim c = None"
    by (cases "Fee_v1 v1")
       (simp_all add: migrateV1Claim_def mig_defs split: prod.splits)
  show "\<exists>c. migrateV2Claim pb v2 =
       Some (Some c, snd (hex_DecodeString (LbrySDHash (Sources_v2 v2)))) \<and>
     PublisherSignature_claim c = None"
    by (cases "Fee_v2 v2")
       (simp_all add: migrateV2Claim_def mig_defs split: prod.splits)
  show "\<exists>c. migrateV3Claim pb v3 =
       Some (Some c, snd (hex_DecodeString (LbrySDHash (Sources_v3 v3)))) \<and>
     PublisherSignature_claim c = None"
    by (cases "Fee_v3 v3")
       (simp_all add: migrateV3Claim_def mig_defs split: prod.splits)
qed

theorem publisher_signature_absent_witness:
  "(\<exists>c. migrateV1Claim example_tables example_v1 = Some (Some c, None) \<and>
     PublisherSignature_claim c = None) \<and>
   (\<exists>c. migrateV2Claim example_tables example_v2 = Some (Some c, None) \<and>
     PublisherSignature_claim c = None) \<and>
   (\<exists>c. migrateV3Claim example_tables example_v3 = Some (Some c, None) \<and>
     PublisherSignature_claim c = None)"
  using publisher_signature_absent [of example_tables example_v1 example_v2 example_v3]
  by (simp add: example_v1_def example_v2_def example_v3_def hex_deadbeef)

subsection \<open>V2 and V3 are the same transformation\<close>

text \<open>
  C10: a V2 record and a V3 record with equal author, description, language, license,
  license URL, title, thumbnail, NSFW flag, content type, digest and fee migrate to
  equal results, claim and error alike.
\<close>

theorem migrateV2_eq_migrateV3:
  assumes "Author_v2 v2 = Author_v3 v3" and "Description_v2 v2 = Description_v3 v3"
    and "Language_v2 v2 = Language_v3 v3" and "License_v2 v2 = License_v3 v3"
    and "LicenseURL_v2 v2 = LicenseURL_v3 v3" and "Title_v2 v2 = Title_v3 v3"
    and "Thumbnail_v2 v2 = Thumbnail_v3 v3" and "NSFW_v2 v2 = NSFW_v3 v3"
    and "ContentType_v2 v2 = ContentType_v3 v3"
    and "LbrySDHash (Sources_v2 v2) = LbrySDHash (Sources_v3 v3)"
    and "Fee_v2 v2 = Fee_v3 v3"
  shows "migrateV2Claim pb v2 = migrateV3Claim pb v3"
  using assms by (simp add: migrateV2Claim_def migrateV3Claim_def)

theorem migrateV2_eq_migrateV3_witness:
  "migrateV2Claim example_tables example_v2 = migrateV3Claim example_tables example_v3 \<and>
   (\<exists>c. migrateV2Claim example_tables example_v2 = Some (Some c, None)) \<and>
   migrateV2Claim example_tables (example_v2\<lparr>Sources_v2 := \<lparr>LbrySDHash = ''abzz''\<rparr>,
       Fee_v2 := Some \<lparr>LBC = None, BTC = Some example_btc, USD = None\<rparr>\<rparr>)
     = migrateV3Claim example_tables (example_v3\<lparr>Sources_v3 := \<lparr>LbrySDHash = ''abzz''\<rparr>,
       Fee_v3 := Some \<lparr>LBC = None, BTC = Some example_btc, USD = None\<rparr>\<rparr>)"
proof -
  have "migrateV2Claim example_tables example_v2 = migrateV3Claim example_tables example_v3"
    by (rule migrateV2_eq_migrateV3) (simp_all add: example_v2_def example_v3_def)
  moreover have "\<exists>c. migrateV2Claim example_tables example_v2 = Some (Some c, None)"
    by (simp add: migrateV2Claim_def mig_defs example_v2_def hex_deadbeef)
  moreover have "migrateV2Claim example_tables
      (example_v2\<lparr>Sources_v2 := \<lparr>LbrySDHash = ''abzz''\<rparr>,
         Fee_v2 := Some \<lparr>LBC = None, BTC = Some example_btc, USD = None\<rparr>\<rparr>)
     = migrateV3Claim example_tables (example_v3\<lparr>Sources_v3 := \<lparr>LbrySDHash = ''abzz''\<rparr>,
         Fee_v3 := Some \<lparr>LBC = None, BTC = Some example_btc, USD = None\<rparr>\<rparr>)"
    by (rule migrateV2_eq_migrateV3) (simp_all add: example_v2_def example_v3_def)
  ultimately show ?thesis by simp
qed

end
